theory Spec2Isabelle
  imports Complex_Main "HOL-Library.Sublist" "HOL-Library.AList"
begin

section \<open>Exceptions\<close>

text \<open>
  The Python exceptions that the modelled code of \<^verbatim>\<open>unsloth/models/rl.py\<close> can meet.
  All of them are subclasses of \<^verbatim>\<open>Exception\<close>, so both \<^verbatim>\<open>except Exception\<close> and a
  bare \<^verbatim>\<open>except\<close> catch them.
\<close>

datatype py_exc =
    AttributeError
  | ImportError
  | RuntimeError
  | OSError
  | TypeError
  | ValueError
  | BodyError nat

section \<open>The NEFTune forward hook\<close>

text \<open>
  \<^verbatim>\<open>
  def neftune_post_forward_hook(module, input, output):
      if module.training:
          dims = torch.tensor(output.size(1) * output.size(2))
          mag_norm = module.neftune_noise_alpha / torch.sqrt(dims)
          output = output + torch.zeros_like(output).uniform_(-mag_norm, mag_norm)
      return output
  \<close>
  The tensor library is external: its operations are the fields of \<open>torch_ops\<close>.
  \<open>uniform_\<close> draws random numbers; the draw is whatever the field returns.
\<close>

record nn_module =
  training :: bool
  neftune_noise_alpha :: real

record 't torch_ops =
  tensor_size :: "'t \<Rightarrow> nat \<Rightarrow> nat"
  zeros_like :: "'t \<Rightarrow> 't"
  uniform_fill :: "'t \<Rightarrow> real \<Rightarrow> real \<Rightarrow> 't"
  tensor_add :: "'t \<Rightarrow> 't \<Rightarrow> 't"

definition neftune_post_forward_hook ::
  "'t torch_ops \<Rightarrow> nn_module \<Rightarrow> 'i \<Rightarrow> 't \<Rightarrow> 't" where
  "neftune_post_forward_hook torch mdl inp outp =
     (if training mdl then
        let dims = real (tensor_size torch outp 1 * tensor_size torch outp 2);
            mag_norm = neftune_noise_alpha mdl / sqrt dims
        in tensor_add torch outp (uniform_fill torch (zeros_like torch outp) (- mag_norm) mag_norm)
      else outp)"

section \<open>The generation context manager of \<^verbatim>\<open>PatchRL\<close>\<close>

text \<open>
  \<^verbatim>\<open>
  @contextmanager
  def unsloth_unwrap_model_for_generation(model, *args, **kwargs):
      with unwrap_model_for_generation(model, *args, **kwargs) as unwrapped_model:
          FastLanguageModel.for_inference(unwrapped_model)
          original_generate = unwrapped_model.generate
          def generate_with_clone(*args, **kwargs): ...
          unwrapped_model.generate = generate_with_clone
          try:
              yield unwrapped_model
          finally:
              unwrapped_model.generate = original_generate
              FastLanguageModel.for_training(model)
  \<close>
  Models are objects of a store; the only attribute the code touches is \<open>generate\<close>, which
  an object has (\<open>Some\<close>) or lacks (\<open>None\<close>: reading it raises \<^verbatim>\<open>AttributeError\<close>). Whether
  an object takes an assignment to the attribute is a property of its class, \<open>settable\<close>;
  an assignment to another object raises \<^verbatim>\<open>AttributeError\<close>.
  \<open>FastLanguageModel\<close>, TRL's \<open>unwrap_model_for_generation\<close> and the body of the
  \<^verbatim>\<open>with\<close> statement are external: they are parameters that transform the world and
  either return (\<open>None\<close>) or raise (\<open>Some e\<close>).
\<close>

type_synonym model_ref = nat

datatype generate_fn =
    Library_generate nat
  | Generate_with_clone generate_fn

record 's gen_world =
  generate_attr :: "model_ref \<Rightarrow> generate_fn option"
  internals :: 's

record 's fast_language_model =
  for_inference :: "model_ref \<Rightarrow> 's gen_world \<Rightarrow> py_exc option \<times> 's gen_world"
  for_training :: "model_ref \<Rightarrow> 's gen_world \<Rightarrow> py_exc option \<times> 's gen_world"

record 's unwrap_cm =
  cm_enter :: "model_ref \<Rightarrow> 's gen_world \<Rightarrow> (py_exc + model_ref) \<times> 's gen_world"
  cm_exit :: "model_ref \<Rightarrow> py_exc option \<Rightarrow> 's gen_world \<Rightarrow> py_exc option \<times> 's gen_world"

text \<open>\<^verbatim>\<open>m.generate = g\<close>\<close>

definition set_generate ::
  "(model_ref \<Rightarrow> bool) \<Rightarrow> model_ref \<Rightarrow> generate_fn \<Rightarrow> 's gen_world \<Rightarrow> py_exc + 's gen_world" where
  "set_generate settable m g w =
     (if settable m then Inr (w\<lparr>generate_attr := (generate_attr w)(m \<mapsto> g)\<rparr>)
      else Inl AttributeError)"

text \<open>
  The \<^verbatim>\<open>finally\<close> clause, entered with the exception \<open>raised\<close> that the body left (if any).
  An exception raised in the clause replaces it.
\<close>

definition finally_block ::
  "'s fast_language_model \<Rightarrow> (model_ref \<Rightarrow> bool) \<Rightarrow> model_ref \<Rightarrow> model_ref \<Rightarrow> generate_fn \<Rightarrow>
   py_exc option \<Rightarrow> 's gen_world \<Rightarrow> py_exc option \<times> 's gen_world" where
  "finally_block flm settable model unwrapped_model original_generate raised w4 =
     (case set_generate settable unwrapped_model original_generate w4 of
        Inl e \<Rightarrow> (Some e, w4)
      | Inr w5 \<Rightarrow>
          (case for_training flm model w5 of
             (Some e, w6) \<Rightarrow> (Some e, w6)
           | (None, w6) \<Rightarrow> (raised, w6)))"

text \<open>The statements under the inner \<^verbatim>\<open>with\<close>, from \<^verbatim>\<open>for_inference\<close> to the end of \<^verbatim>\<open>finally\<close>.\<close>

definition unwrapped_block ::
  "'s fast_language_model \<Rightarrow> (model_ref \<Rightarrow> bool) \<Rightarrow> model_ref \<Rightarrow> model_ref \<Rightarrow>
   (model_ref \<Rightarrow> 's gen_world \<Rightarrow> py_exc option \<times> 's gen_world) \<Rightarrow>
   's gen_world \<Rightarrow> py_exc option \<times> 's gen_world" where
  "unwrapped_block flm settable model unwrapped_model body w1 =
     (case for_inference flm unwrapped_model w1 of
        (Some e, w2) \<Rightarrow> (Some e, w2)
      | (None, w2) \<Rightarrow>
          (case generate_attr w2 unwrapped_model of
             None \<Rightarrow> (Some AttributeError, w2)
           | Some original_generate \<Rightarrow>
               (case set_generate settable unwrapped_model
                       (Generate_with_clone original_generate) w2 of
                  Inl e \<Rightarrow> (Some e, w2)
                | Inr w3 \<Rightarrow>
                    (case body unwrapped_model w3 of
                       (raised, w4) \<Rightarrow>
                         finally_block flm settable model unwrapped_model original_generate
                           raised w4))))"

text \<open>
  The whole context manager, run around a body: the inner context manager is entered, the
  block runs, and the inner context manager is left with the exception of the block.
\<close>

definition unsloth_unwrap_model_for_generation ::
  "'s fast_language_model \<Rightarrow> 's unwrap_cm \<Rightarrow> (model_ref \<Rightarrow> bool) \<Rightarrow> model_ref \<Rightarrow>
   (model_ref \<Rightarrow> 's gen_world \<Rightarrow> py_exc option \<times> 's gen_world) \<Rightarrow>
   's gen_world \<Rightarrow> py_exc option \<times> 's gen_world" where
  "unsloth_unwrap_model_for_generation flm um settable model body w =
     (case cm_enter um model w of
        (Inl e, w1) \<Rightarrow> (Some e, w1)
      | (Inr unwrapped_model, w1) \<Rightarrow>
          (case unwrapped_block flm settable model unwrapped_model body w1 of
             (raised, w') \<Rightarrow> cm_exit um unwrapped_model raised w'))"

subsection \<open>Worlds and externals for evaluation\<close>

text \<open>
  A world of models whose \<open>generate\<close> is the library's function for model \<open>m + 5\<close>; a
  \<open>FastLanguageModel\<close> whose \<open>for_training\<close> installs the function of the training mode
  on the model it is given, and one that leaves the attribute alone; a context manager of
  TRL that yields the model itself, and one that yields another object; a body that
  returns, and one that assigns the attribute and raises.
\<close>

definition generation_world :: "unit gen_world" where
  "generation_world = \<lparr>generate_attr = (\<lambda>m. Some (Library_generate (m + 5))), internals = ()\<rparr>"

definition switching_language_model :: "unit fast_language_model" where
  "switching_language_model =
     \<lparr>for_inference = (\<lambda>m x. (None, x)),
      for_training = (\<lambda>m x. (None, x\<lparr>generate_attr := (generate_attr x)(m \<mapsto> Library_generate m)\<rparr>))\<rparr>"

definition quiet_language_model :: "unit fast_language_model" where
  "quiet_language_model =
     \<lparr>for_inference = (\<lambda>m x. (None, x)), for_training = (\<lambda>m x. (None, x))\<rparr>"

definition plain_unwrap :: "unit unwrap_cm" where
  "plain_unwrap = \<lparr>cm_enter = (\<lambda>m x. (Inr m, x)), cm_exit = (\<lambda>m r x. (r, x))\<rparr>"

definition inner_unwrap :: "unit unwrap_cm" where
  "inner_unwrap = \<lparr>cm_enter = (\<lambda>m x. (Inr (Suc m), x)), cm_exit = (\<lambda>m r x. (r, x))\<rparr>"

definition returning_body :: "model_ref \<Rightarrow> unit gen_world \<Rightarrow> py_exc option \<times> unit gen_world" where
  "returning_body m x = (None, x)"

definition raising_body :: "model_ref \<Rightarrow> unit gen_world \<Rightarrow> py_exc option \<times> unit gen_world" where
  "raising_body m x =
     (Some (BodyError 1), x\<lparr>generate_attr := (generate_attr x)(m \<mapsto> Library_generate 99)\<rparr>)"

section \<open>Python strings\<close>

text \<open>
  A Python \<^verbatim>\<open>str\<close> is a \<open>string\<close>. The four characters that cannot stand inside an
  Isabelle string literal are written as one-character strings.
\<close>

abbreviation (input) SQ :: string where "SQ \<equiv> [CHR 0x27]"
abbreviation (input) DQ :: string where "DQ \<equiv> [CHR 0x22]"
abbreviation (input) BS :: string where "BS \<equiv> [CHR 0x5C]"
abbreviation (input) BQ :: string where "BQ \<equiv> [CHR 0x60]"

definition spaces :: "nat \<Rightarrow> string" where
  "spaces n = replicate n CHR '' ''"

text \<open>\<^verbatim>\<open>sep.join(xs)\<close>\<close>

fun py_join :: "string \<Rightarrow> string list \<Rightarrow> string" where
  "py_join sep [] = []"
| "py_join sep [x] = x"
| "py_join sep (x # y # ys) = x @ sep @ py_join sep (y # ys)"

text \<open>\<^verbatim>\<open>s.split(sep)\<close> for a separator of one character; the result is never empty.\<close>

fun py_split_char :: "char \<Rightarrow> string \<Rightarrow> string list" where
  "py_split_char sep [] = [[]]"
| "py_split_char sep (c # cs) =
     (if c = sep then [] # py_split_char sep cs
      else (case py_split_char sep cs of
              [] \<Rightarrow> [[c]]
            | l # ls \<Rightarrow> (c # l) # ls))"

text \<open>\<^verbatim>\<open>x in s\<close>, \<^verbatim>\<open>s.startswith(x)\<close> and \<^verbatim>\<open>s.endswith(x)\<close> on strings.\<close>

definition py_in :: "string \<Rightarrow> string \<Rightarrow> bool" where
  "py_in x s = sublist x s"

definition startswith :: "string \<Rightarrow> string \<Rightarrow> bool" where
  "startswith s x = prefix x s"

definition endswith :: "string \<Rightarrow> string \<Rightarrow> bool" where
  "endswith s x = suffix x s"

text \<open>\<^verbatim>\<open>s.lower()\<close> and \<^verbatim>\<open>s.islower()\<close>, on ASCII letters.\<close>

definition ascii_uppercase :: string where
  "ascii_uppercase = ''ABCDEFGHIJKLMNOPQRSTUVWXYZ''"

definition ascii_lowercase :: string where
  "ascii_lowercase = ''abcdefghijklmnopqrstuvwxyz''"

definition lower_char :: "char \<Rightarrow> char" where
  "lower_char c = (case map_of (zip ascii_uppercase ascii_lowercase) c of
                     None \<Rightarrow> c | Some d \<Rightarrow> d)"

definition lower :: "string \<Rightarrow> string" where
  "lower s = map lower_char s"

definition islower :: "string \<Rightarrow> bool" where
  "islower s \<longleftrightarrow> (\<exists>c \<in> set s. c \<in> set ascii_lowercase) \<and> (\<forall>c \<in> set s. c \<notin> set ascii_uppercase)"

text \<open>
  \<^verbatim>\<open>s.replace(old, new)\<close> and \<^verbatim>\<open>s.replace(old, new, 1)\<close>. For a non-empty \<open>old\<close> the
  string is scanned from the left; where \<open>old\<close> starts, \<open>new\<close> is written and the scan goes
  on behind the occurrence; elsewhere the character is copied. The counter \<open>skip\<close> is the
  number of characters of a found occurrence that are still to be passed over. For an
  empty \<open>old\<close> Python writes \<open>new\<close> before every character and at the end.
\<close>

fun replace_scan :: "string \<Rightarrow> string \<Rightarrow> nat \<Rightarrow> string \<Rightarrow> string" where
  "replace_scan old new skip [] = []"
| "replace_scan old new (Suc n) (c # cs) = replace_scan old new n cs"
| "replace_scan old new 0 (c # cs) =
     (if prefix old (c # cs) then new @ replace_scan old new (length old - 1) cs
      else c # replace_scan old new 0 cs)"

definition replace :: "string \<Rightarrow> string \<Rightarrow> string \<Rightarrow> string" where
  "replace old new s =
     (if old = [] then concat (map (\<lambda>c. new @ [c]) s) @ new else replace_scan old new 0 s)"

fun replace_first :: "string \<Rightarrow> string \<Rightarrow> string \<Rightarrow> string" where
  "replace_first old new [] = (if old = [] then new else [])"
| "replace_first old new (c # cs) =
     (if prefix old (c # cs) then new @ drop (length old) (c # cs)
      else c # replace_first old new cs)"

text \<open>\<^verbatim>\<open>f"{n}"\<close> for an integer.\<close>

definition digit_char :: "nat \<Rightarrow> char" where
  "digit_char n = ''0123456789'' ! n"

function show_nat :: "nat \<Rightarrow> string" where
  "show_nat n = (if n < 10 then [digit_char n] else show_nat (n div 10) @ [digit_char (n mod 10)])"
  by pat_completeness auto
termination
  by (relation "measure id") auto

declare show_nat.simps [simp del]

definition show_int :: "int \<Rightarrow> string" where
  "show_int i = (if i < 0 then ''-'' @ show_nat (nat (- i)) else show_nat (nat i))"

text \<open>
  \<^verbatim>\<open>"\n".join(" "*8 + x for x in s.split("\n"))\<close>, the indentation of a generated code block
  (source lines 296-299 and 363-364).
\<close>

definition indent8 :: "string \<Rightarrow> string" where
  "indent8 s = py_join ''\<newline>'' (map (\<lambda>x. spaces 8 @ x) (py_split_char CHR ''\<newline>'' s))"

text \<open>
  The same indentation written character by character: 8 spaces in front, and 8 spaces
  behind every line feed (\<open>indent8_chars\<close> below shows that it is the same).
\<close>

fun indent_tail :: "string \<Rightarrow> string" where
  "indent_tail [] = []"
| "indent_tail (c # cs) =
     (if c = CHR ''\<newline>'' then CHR ''\<newline>'' # spaces 8 @ indent_tail cs
      else c # indent_tail cs)"

section \<open>Occurrences and replaced texts\<close>



section \<open>Constructor signatures and the argument texts (source lines 153-174)\<close>

text \<open>
  The default of a parameter, as \<^verbatim>\<open>inspect.signature\<close> reports it. A \<^verbatim>\<open>float\<close> default is
  kept as the text that \<^verbatim>\<open>f"{v}"\<close> gives for it, since floating point is not modelled; a
  default of any type outside \<^verbatim>\<open>(bool, type(None), int, float, str)\<close> is \<open>PyOther\<close>, and
  carries the one thing the code asks of such an object: whether it compares equal to the
  string of one line feed (an instance of a subclass of \<^verbatim>\<open>str\<close> can).
\<close>

datatype py_default =
    EMPTY
  | PyStr string
  | PyBool bool
  | PyNone
  | PyInt int
  | PyFloat string
  | PyOther bool

type_synonym signature = "(string \<times> py_default) list"

text \<open>\<^verbatim>\<open>f"{v}"\<close> for the values that the code formats.\<close>

fun format_value :: "py_default \<Rightarrow> string" where
  "format_value (PyStr s) = s"
| "format_value (PyBool b) = (if b then ''True'' else ''False'')"
| "format_value PyNone = ''None''"
| "format_value (PyInt i) = show_int i"
| "format_value (PyFloat r) = r"
| "format_value EMPTY = ''<class '' @ SQ @ ''inspect._empty'' @ SQ @ ''>''"
| "format_value (PyOther b) = ''<object>''"

text \<open>\<^verbatim>\<open>v == "\n"\<close>\<close>

fun equals_newline :: "py_default \<Rightarrow> bool" where
  "equals_newline (PyStr s) = (s = ''\<newline>'')"
| "equals_newline (PyOther b) = b"
| "equals_newline v = False"

text \<open>\<^verbatim>\<open>re.escape("\n")\<close>: a backslash and the line feed.\<close>

definition re_escape_newline :: string where
  "re_escape_newline = BS @ ''\<newline>''"

text \<open>
  One round of the loop over \<^verbatim>\<open>parameters.items()\<close>:
  \<^verbatim>\<open>
  if k == "self": continue
  v = v.default
  if v == "\n": v = re.escape("\n")
  if v is EMPTY: arguments.append(k)
  elif type(v) is str:   arguments.append(f"{k} = '{v}'")
  elif type(v) in types: arguments.append(f"{k} = {v}")
  else: continue
  call_args.append(f"{k} = {k}")
  \<close>
\<close>

definition signature_step ::
  "string list \<times> string list \<Rightarrow> string \<times> py_default \<Rightarrow> string list \<times> string list" where
  "signature_step acc kv =
     (case acc of (arguments, call_args) \<Rightarrow>
      case kv of (k, v0) \<Rightarrow>
        if k = ''self'' then acc
        else
          let v = (if equals_newline v0 then PyStr re_escape_newline else v0) in
          (case v of
             EMPTY \<Rightarrow> (arguments @ [k], call_args @ [k @ '' = '' @ k])
           | PyStr s \<Rightarrow> (arguments @ [k @ '' = '' @ SQ @ s @ SQ], call_args @ [k @ '' = '' @ k])
           | PyOther b \<Rightarrow> acc
           | _ \<Rightarrow> (arguments @ [k @ '' = '' @ format_value v], call_args @ [k @ '' = '' @ k])))"

definition signature_lists :: "signature \<Rightarrow> string list \<times> string list" where
  "signature_lists parameters = foldl signature_step ([''self''], []) parameters"

text \<open>
  \<^verbatim>\<open>
  arguments = f"\n{' '*8}" + f",\n{' '*8}".join(arguments)
  call_args = f"\n{' '*12}" + f",\n{' '*12}".join(call_args)
  processed.append((arguments, call_args,))
  \<close>
\<close>

definition process_signature :: "signature \<Rightarrow> string \<times> string" where
  "process_signature parameters =
     (case signature_lists parameters of (arguments, call_args) \<Rightarrow>
        (''\<newline>'' @ spaces 8 @ py_join ('',\<newline>'' @ spaces 8) arguments,
         ''\<newline>'' @ spaces 12 @ py_join ('',\<newline>'' @ spaces 12) call_args))"

subsection \<open>The argument lists as the specification words them\<close>

text \<open>
  The entry of a parameter in the argument list: bare for an empty default, \<open>k = 'v'\<close> for a
  string, \<open>k = v\<close> for a bool, None, int or float, and no entry for any other type.
\<close>

fun stated_argument :: "string \<times> py_default \<Rightarrow> string option" where
  "stated_argument (k, EMPTY) = Some k"
| "stated_argument (k, PyStr s) = Some (k @ '' = '' @ SQ @ s @ SQ)"
| "stated_argument (k, PyOther b) = None"
| "stated_argument (k, v) = Some (k @ '' = '' @ format_value v)"

text \<open>The parameters that are kept: all but \<open>self\<close> and those with a default of another type.\<close>

fun other_type :: "py_default \<Rightarrow> bool" where
  "other_type (PyOther b) = True"
| "other_type v = False"

definition kept :: "signature \<Rightarrow> signature" where
  "kept parameters = filter (\<lambda>(k, v). k \<noteq> ''self'' \<and> \<not> other_type v) parameters"

definition stated_arguments :: "signature \<Rightarrow> string list" where
  "stated_arguments parameters = ''self'' # List.map_filter stated_argument (kept parameters)"

definition stated_call_args :: "signature \<Rightarrow> string list" where
  "stated_call_args parameters = map (\<lambda>(k, v). k @ '' = '' @ k) (kept parameters)"

text \<open>The two lists as the texts that the template receives (lines 171-172).\<close>

definition arguments_text :: "string list \<Rightarrow> string" where
  "arguments_text arguments = ''\<newline>'' @ spaces 8 @ py_join ('',\<newline>'' @ spaces 8) arguments"

definition call_args_text :: "string list \<Rightarrow> string" where
  "call_args_text call_args = ''\<newline>'' @ spaces 12 @ py_join ('',\<newline>'' @ spaces 12) call_args"

section \<open>The generated code blocks (source lines 176-368)\<close>

text \<open>
  The Python statements that the patch writes into the new constructors are string
  constants of the source. They are transcribed character by character.
\<close>

text \<open>Source lines 192-205.\<close>

definition mixed_precision :: string where
  "mixed_precision =
     ''use_bf16 = getattr(args, '' @ SQ @ ''bf16'' @ SQ @ '', False)\<newline>'' @
     ''use_fp16 = getattr(args, '' @ SQ @ ''fp16'' @ SQ @ '', False)\<newline>'' @
     ''dtype = getattr(model.config, '' @ SQ @ ''torch_dtype'' @ SQ @ '', None)\<newline>'' @
     ''if dtype is None: dtype = model.get_input_embeddings().dtype\<newline>'' @
     ''from unsloth_zoo.utils import _get_dtype\<newline>'' @
     ''dtype = _get_dtype(dtype)\<newline>'' @
     ''float16 = dtype == torch.float16\<newline>'' @
     ''if float16 and use_bf16: raise TypeError('' @ SQ @ ''Unsloth: Model is in float16 precision but you want to use bfloat16 precision. Set fp16 to '' @ BQ @ ''True'' @ BQ @ '' and bf16 to '' @ BQ @ ''False'' @ BQ @ SQ @ '')\<newline>'' @
     ''if not float16 and use_fp16: raise TypeError('' @ SQ @ ''Unsloth: Model is in bfloat16 precision but you want to use float16 precision. Set fp16 to '' @ BQ @ ''False'' @ BQ @ '' and bf16 to '' @ BQ @ ''True'' @ BQ @ SQ @ '')\<newline>'' @
     ''if not use_bf16 and not use_fp16:\<newline>'' @
     ''    args.fp16 = float16\<newline>'' @
     ''    args.bf16 = not float16\<newline>'' @
     ''    os.environ['' @ SQ @ ''ACCELERATE_MIXED_PRECISION'' @ SQ @ ''] = '' @ SQ @ ''fp16'' @ SQ @ '' if float16 else '' @ SQ @ ''bf16'' @ SQ @ ''\<newline>''"

text \<open>Source lines 214-218.\<close>

definition check_eval_dataset :: string where
  "check_eval_dataset =
     ''if getattr(args, '' @ SQ @ ''eval_dataset'' @ SQ @ '', None) is not None and getattr(args, '' @ SQ @ ''eval_strategy'' @ SQ @ '', '' @ SQ @ ''no'' @ SQ @ '') == '' @ SQ @ ''no'' @ SQ @ '':\<newline>'' @
     ''    args.eval_strategy = '' @ SQ @ ''steps'' @ SQ @ ''\<newline>'' @
     ''    if getattr(args, '' @ SQ @ ''eval_steps'' @ SQ @ '', None) is None: args.eval_steps = 0.1\<newline>''"

text \<open>Source lines 223-229.\<close>

definition check_ga :: string where
  "check_ga =
     ''ga_steps = getattr(args, '' @ SQ @ ''gradient_accumulation_steps'' @ SQ @ '', None)\<newline>'' @
     ''if ga_steps is not None and ga_steps > 1:\<newline>'' @
     ''    from transformers import __version__ as transformers_version\<newline>'' @
     ''    if Version(transformers_version) <= Version('' @ SQ @ ''4.45.2'' @ SQ @ ''):\<newline>'' @
     ''        print('' @ SQ @ ''**** Unsloth: Please use our fixed gradient_accumulation_steps by updating transformers, TRL and Unsloth!'' @ BS @ ''n'' @ SQ @ ''\<newline>'' @
     ''              '' @ SQ @ BQ @ ''pip install --upgrade --no-cache-dir --force-reinstall --no-deps unsloth transformers trl unsloth_zoo'' @ BQ @ SQ @ '')\<newline>''"

text \<open>Source lines 232-241.\<close>

definition eval_changes :: string where
  "eval_changes =
     ''if getattr(args, '' @ SQ @ ''eval_strategy'' @ SQ @ '', '' @ SQ @ ''no'' @ SQ @ '') != '' @ SQ @ ''no'' @ SQ @ '':\<newline>'' @
     ''    eval_bsz = getattr(args, '' @ SQ @ ''per_device_eval_batch_size'' @ SQ @ '', 8)\<newline>'' @
     ''    if eval_bsz == 8 and args.per_device_train_batch_size < eval_bsz: args.per_device_eval_batch_size = args.per_device_train_batch_size\<newline>'' @
     ''    if getattr(args, '' @ SQ @ ''eval_accumulation_steps'' @ SQ @ '', None) is None and ga_steps is not None: args.eval_accumulation_steps = ga_steps\<newline>'' @
     ''fp16_full_eval = getattr(args, '' @ SQ @ ''fp16_full_eval'' @ SQ @ '', False)\<newline>'' @
     ''bf16_full_eval = getattr(args, '' @ SQ @ ''bf16_full_eval'' @ SQ @ '', False)\<newline>'' @
     ''if args.fp16 and bf16_full_eval: args.bf16_full_eval = False; args.fp16_full_eval = True\<newline>'' @
     ''if args.bf16 and fp16_full_eval: args.bf16_full_eval = True; args.fp16_full_eval = False\<newline>'' @
     ''if not bf16_full_eval and not fp16_full_eval: args.bf16_full_eval = args.bf16; args.fp16_full_eval = args.fp16\<newline>''"

text \<open>Source lines 247-255. The assignment ends with line 255, which has no line
  continuation: lines 256-260 are an expression statement of their own and are not part
  of \<open>length_check\<close>.\<close>

definition length_check :: string where
  "length_check =
     ''if '' @ SQ @ ''max_seq_length'' @ SQ @ '' not in locals() and not hasattr(args, '' @ SQ @ ''max_seq_length'' @ SQ @ ''):\<newline>'' @
     ''    pass\<newline>'' @
     ''else:\<newline>'' @
     ''    model_max_seq_length = getattr(model, '' @ SQ @ ''max_seq_length'' @ SQ @ '', None)\<newline>'' @
     ''    args_max_seq_length  = getattr(args,  '' @ SQ @ ''max_seq_length'' @ SQ @ '', None)\<newline>'' @
     ''    if args_max_seq_length is None and model_max_seq_length is not None:\<newline>'' @
     ''        max_seq_length = model.max_seq_length\<newline>'' @
     ''        if hasattr(args, '' @ SQ @ ''max_seq_length'' @ SQ @ ''): args.max_seq_length = max_seq_length\<newline>''"

text \<open>Source lines 266-273.\<close>

definition training_check :: string where
  "training_check =
     ''if model is not None and hasattr(model, '' @ SQ @ ''for_training'' @ SQ @ ''):\<newline>'' @
     ''    model.for_training()\<newline>'' @
     ''if '' @ SQ @ ''tokenizer'' @ SQ @ '' in locals() and hasattr(tokenizer, '' @ SQ @ ''padding_side'' @ SQ @ ''): tokenizer.padding_side = '' @ SQ @ ''right'' @ SQ @ ''\<newline>'' @
     ''if '' @ SQ @ ''processing_class'' @ SQ @ '' in locals():\<newline>'' @
     ''    if hasattr(processing_class, '' @ SQ @ ''padding_side'' @ SQ @ ''): processing_class.padding_side = '' @ SQ @ ''right'' @ SQ @ ''\<newline>'' @
     ''    if hasattr(processing_class, tokenizer) and hasattr(processing_class.tokenizer, '' @ SQ @ ''padding_side'' @ SQ @ ''): processing_class.tokenizer.padding_side = '' @ SQ @ ''right'' @ SQ @ ''\<newline>''"

text \<open>Source lines 279-286.\<close>

definition neftune_check :: string where
  "neftune_check =
     ''if hasattr(self, '' @ SQ @ ''neftune_hook_handle'' @ SQ @ ''):\<newline>'' @
     ''    self.neftune_hook_handle.remove()\<newline>'' @
     ''    if hasattr(self, '' @ SQ @ ''neftune_hook_handle'' @ SQ @ ''): del self.neftune_hook_handle\<newline>'' @
     ''if getattr(args, '' @ SQ @ ''neftune_noise_alpha'' @ SQ @ '', None) is not None:\<newline>'' @
     ''    model.get_input_embeddings().neftune_noise_alpha = self.neftune_noise_alpha\<newline>'' @
     ''    self.neftune_hook_handle = self.model.get_input_embeddings().register_forward_hook(neftune_post_forward_hook)\<newline>'' @
     ''pass\<newline>''"

text \<open>Source lines 333-337.\<close>

definition learning_rate_check :: string where
  "learning_rate_check =
     ''if learning_rate < 1e-7: raise FloatingPointError(f'' @ SQ @ ''Unsloth: Your learning rate of '' @ BQ @ ''{learning_rate}'' @ BQ @ '' is too small and less than 1e-7! Consider increasing it, otherwise gradient updates will be close to 0!'' @ SQ @ '')\<newline>'' @
     ''if learning_rate > 1: raise OverflowError(f'' @ SQ @ ''Unsloth: Your learning rate of '' @ BQ @ ''{learning_rate}'' @ BQ @ '' is way too larger > 1! Consider decreasing it to 1e-1, otherwise gradient updates will explode!'' @ SQ @ '')\<newline>''"

text \<open>Source lines 344-347.\<close>

definition saving_check :: string where
  "saving_check =
     ''if output_dir is None and save_strategy == '' @ SQ @ ''steps'' @ SQ @ '' and save_steps == 500:\<newline>'' @
     ''    output_dir = '' @ SQ @ ''unsloth_training_checkpoints'' @ SQ @ ''\<newline>'' @
     ''    save_strategy = '' @ SQ @ ''no'' @ SQ @ ''\<newline>''"

text \<open>Source lines 353-356.\<close>

definition num_proc_check :: string where
  "num_proc_check =
     ''if dataset_num_proc is None:\<newline>'' @
     ''    from multiprocessing import cpu_count\<newline>'' @
     ''    dataset_num_proc = cpu_count()\<newline>''"
section \<open>The module template (source lines 84-121)\<close>

text \<open>
  \<^verbatim>\<open>RLTrainer_replacement.format(...)\<close>: the template with its fourteen fields filled in.
  A doubled brace of the template stands for one brace.
\<close>

record template_fields =
  f_RLConfig_name :: string
  f_doc_RLConfig_doc :: string
  f_RLConfig_arguments :: string
  f_RLConfig_extra_args :: string
  f_RLConfig_call_args :: string
  f_RLConfig_kwargs :: string
  f_RLTrainer_extras :: string
  f_RLTrainer_name :: string
  f_doc_RLTrainer_doc :: string
  f_RLTrainer_arguments :: string
  f_RLTrainer_extra_args :: string
  f_RLTrainer_call_args :: string
  f_RLTrainer_kwargs :: string
  f_RLTrainer_post :: string

definition RLTrainer_replacement_format :: "template_fields \<Rightarrow> string" where
  "RLTrainer_replacement_format f =
     ''\<newline>'' @
     ''import os\<newline>'' @
     ''from typing import *\<newline>'' @
     ''from dataclasses import dataclass, field\<newline>'' @
     ''from packaging.version import Version\<newline>'' @
     ''\<newline>'' @
     ''@dataclass\<newline>'' @
     ''class Unsloth'' @
     f_RLConfig_name f @
     ''('' @
     f_RLConfig_name f @
     ''):\<newline>'' @
     ''    '' @ DQ @ DQ @ DQ @ ''\<newline>'' @
     ''    '' @
     f_doc_RLConfig_doc f @
     ''\<newline>'' @
     ''    '' @ DQ @ DQ @ DQ @ ''\<newline>'' @
     ''    sampling_params: Optional[Any] = field(\<newline>'' @
     ''        default = None,\<newline>'' @
     ''        metadata = {'' @
     SQ @ ''help'' @ SQ @ '': '' @ SQ @ ''vLLM SamplingParams'' @ SQ @ ''}'' @
     '',\<newline>'' @
     ''    )\<newline>'' @
     ''    def __init__('' @
     f_RLConfig_arguments f @
     '',\<newline>'' @
     ''        sampling_params = None,\<newline>'' @
     ''        **kwargs,\<newline>'' @
     ''    ):\<newline>'' @
     f_RLConfig_extra_args f @
     ''\<newline>'' @
     ''        super().__init__('' @
     f_RLConfig_call_args f @
     f_RLConfig_kwargs f @
     '')\<newline>'' @
     ''pass\<newline>'' @
     ''\<newline>'' @
     f_RLTrainer_extras f @
     ''\<newline>'' @
     ''\<newline>'' @
     ''class Unsloth'' @
     f_RLTrainer_name f @
     ''(_Unsloth'' @
     f_RLTrainer_name f @
     ''):\<newline>'' @
     ''    '' @ DQ @ DQ @ DQ @ ''\<newline>'' @
     ''    '' @
     f_doc_RLTrainer_doc f @
     ''\<newline>'' @
     ''    '' @ DQ @ DQ @ DQ @ ''\<newline>'' @
     ''    def __init__('' @
     f_RLTrainer_arguments f @
     '',\<newline>'' @
     ''        **kwargs\<newline>'' @
     ''    ):\<newline>'' @
     ''        if args is None: args = Unsloth'' @
     f_RLConfig_name f @
     ''()\<newline>'' @
     f_RLTrainer_extra_args f @
     ''\<newline>'' @
     ''        super().__init__('' @
     f_RLTrainer_call_args f @
     f_RLTrainer_kwargs f @
     '')\<newline>'' @
     f_RLTrainer_post f @
     ''\<newline>'' @
     ''pass\<newline>''"
section \<open>The trainer's arguments and preamble (source lines 176-302)\<close>

text \<open>
  \<^verbatim>\<open>
  if "tokenizer" not in parameters and "processing_class" in parameters:
      arguments += f",\n{' '*8}tokenizer = None"
      call_args = call_args.replace(
          "processing_class = processing_class",
          "processing_class = tokenizer if tokenizer is not None else processing_class")
  \<close>
  Here \<open>parameters\<close> is the variable of the loop of line 156, which at this point holds
  the signature of the class processed last, the config class.
\<close>

definition add_tokenizer :: "signature \<Rightarrow> string \<times> string \<Rightarrow> string \<times> string" where
  "add_tokenizer parameters ac =
     (case ac of (arguments, call_args) \<Rightarrow>
        if ''tokenizer'' \<notin> set (map fst parameters) \<and> ''processing_class'' \<in> set (map fst parameters)
        then (arguments @ '',\<newline>'' @ spaces 8 @ ''tokenizer = None'',
              replace ''processing_class = processing_class''
                ''processing_class = tokenizer if tokenizer is not None else processing_class''
                call_args)
        else ac)"

text \<open>
  The four texts that the template receives as \<open>RLTrainer_arguments\<close>,
  \<open>RLTrainer_call_args\<close> (lines 300-302: the first entry of \<open>processed\<close> after the tokenizer
  test) and, further down, \<open>RLConfig_arguments\<close> and \<open>RLConfig_call_args\<close> (lines 365-367:
  the second entry, the arguments after the rewriting of the defaults).
\<close>

definition RLTrainer_arguments :: "signature \<Rightarrow> signature \<Rightarrow> string" where
  "RLTrainer_arguments trainer_parameters parameters =
     fst (add_tokenizer parameters (process_signature trainer_parameters))"

definition RLTrainer_call_args :: "signature \<Rightarrow> signature \<Rightarrow> string" where
  "RLTrainer_call_args trainer_parameters parameters =
     snd (add_tokenizer parameters (process_signature trainer_parameters))"

definition RLConfig_call_args :: "signature \<Rightarrow> string" where
  "RLConfig_call_args parameters = snd (process_signature parameters)"

text \<open>
  The text \<open>extra_args\<close> of lines 190-293, before it is indented: each block is appended
  when the name it needs occurs in the text \<open>call_args\<close>; the two statistics lines are
  always appended.
\<close>

definition statistics_call :: "string \<Rightarrow> string" where
  "statistics_call trainer_file = ''PatchRLStatistics('' @ SQ @ trainer_file @ SQ @ '')\<newline>''"

definition trainer_extra_args :: "string \<Rightarrow> string \<Rightarrow> string" where
  "trainer_extra_args call_args trainer_file =
     (if py_in ''args'' call_args \<and> py_in ''model'' call_args then mixed_precision else []) @
     (if py_in ''args'' call_args
      then (if py_in ''eval_dataset'' call_args then check_eval_dataset else []) @
           check_ga @ eval_changes
      else []) @
     (if py_in ''model'' call_args then length_check else []) @
     (if py_in ''model'' call_args then training_check else []) @
     ''from unsloth_zoo.logging_utils import PatchRLStatistics\<newline>'' @
     statistics_call trainer_file"

definition trainer_post :: "string \<Rightarrow> string" where
  "trainer_post call_args = (if py_in ''model'' call_args then neftune_check else [])"

definition RLTrainer_extra_args :: "string \<Rightarrow> string \<Rightarrow> string" where
  "RLTrainer_extra_args call_args trainer_file = indent8 (trainer_extra_args call_args trainer_file)"

definition RLTrainer_post :: "string \<Rightarrow> string" where
  "RLTrainer_post call_args = indent8 (trainer_post call_args)"

section \<open>The config's arguments and preamble (source lines 304-367)\<close>

text \<open>The table \<open>replacements\<close> of lines 309-323, in the order of the dictionary.\<close>

definition replacements :: "(string \<times> py_default) list" where
  "replacements =
     [(''output_dir'', PyNone),
      (''logging_nan_inf_filter'', PyBool False),
      (''per_device_train_batch_size'', PyInt 4),
      (''gradient_accumulation_steps'', PyInt 2),
      (''weight_decay'', PyFloat ''0.01''),
      (''warmup_ratio'', PyFloat ''0.1''),
      (''seed'', PyInt 3407),
      (''optim'', PyStr ''adamw_8bit''),
      (''learning_rate'', PyFloat ''5e-05''),
      (''per_device_eval_batch_size'', PyInt 4),
      (''eval_accumulation_steps'', PyInt 2),
      (''torch_empty_cache_steps'', PyInt 250),
      (''logging_steps'', PyInt 1)]"

text \<open>
  The regular expression \<^verbatim>\<open>f"{k}( = [^,\n]{{1,}})?,\n"\<close> for a key \<open>k\<close> of letters and
  underscores (as all keys of the table are, so that \<open>k\<close> stands for itself). At a position
  of the text it matches \<open>k\<close>, then either \<open> = \<close> and the longest non-empty run of
  characters other than comma and line feed, or nothing, and then a comma and a line feed.
  A shorter run cannot be followed by the comma, so backtracking finds no other match.
  \<open>match_default k s\<close> is the length of the match at the start of \<open>s\<close>.
\<close>

definition default_text_char :: "char \<Rightarrow> bool" where
  "default_text_char c \<longleftrightarrow> c \<noteq> CHR '','' \<and> c \<noteq> CHR ''\<newline>''"

definition match_default :: "string \<Rightarrow> string \<Rightarrow> nat option" where
  "match_default k s =
     (if prefix k s then
        let rest = drop (length k) s;
            value_text = takeWhile default_text_char (drop 3 rest)
        in if prefix '' = '' rest \<and> value_text \<noteq> [] \<and>
              prefix '',\<newline>'' (drop (3 + length value_text) rest)
           then Some (length k + 3 + length value_text + 2)
           else if prefix '',\<newline>'' rest then Some (length k + 2)
           else None
      else None)"

text \<open>
  \<^verbatim>\<open>re.sub(x, y, arguments)\<close> for that pattern and a replacement \<open>y\<close> without backslashes:
  the text is scanned from the left, every match is replaced by \<open>y\<close>, and the scan goes on
  behind the match.
\<close>

fun re_sub_default :: "string \<Rightarrow> string \<Rightarrow> nat \<Rightarrow> string \<Rightarrow> string" where
  "re_sub_default k y skip [] = []"
| "re_sub_default k y (Suc n) (c # cs) = re_sub_default k y n cs"
| "re_sub_default k y 0 (c # cs) =
     (case match_default k (c # cs) of
        Some n \<Rightarrow> y @ re_sub_default k y (n - 1) cs
      | None \<Rightarrow> c # re_sub_default k y 0 cs)"

text \<open>
  \<^verbatim>\<open>
  for k, v in replacements.items():
      x = f"{k}( = [^,\n]{{1,}})?,\n"
      y = f"'{v}'" if type(v) is str else f"{v}"
      y = f"{k} = {y},\n"
      arguments = re.sub(x, y, arguments)
  \<close>
\<close>

definition replacement_text :: "string \<times> py_default \<Rightarrow> string" where
  "replacement_text kv =
     (case kv of (k, v) \<Rightarrow>
        k @ '' = '' @ (case v of PyStr s \<Rightarrow> SQ @ s @ SQ | _ \<Rightarrow> format_value v) @ '',\<newline>'')"

definition edit_defaults :: "string \<Rightarrow> string" where
  "edit_defaults arguments =
     foldl (\<lambda>a kv. re_sub_default (fst kv) (replacement_text kv) 0 a) arguments replacements"

definition config_extra_args :: "string \<Rightarrow> string" where
  "config_extra_args call_args =
     (if py_in '' learning_rate'' call_args then learning_rate_check else []) @
     (if py_in ''output_dir'' call_args then saving_check else []) @
     (if py_in ''dataset_num_proc'' call_args then num_proc_check else [])"

definition RLConfig_arguments :: "signature \<Rightarrow> string" where
  "RLConfig_arguments parameters = edit_defaults (fst (process_signature parameters))"

definition RLConfig_extra_args :: "string \<Rightarrow> string" where
  "RLConfig_extra_args call_args = indent8 (config_extra_args call_args)"

text \<open>\<^verbatim>\<open>",**kwargs"[1 if call_args.endswith(",") else 0:]\<close>\<close>

definition kwargs_text :: "string \<Rightarrow> string" where
  "kwargs_text call_args = (if endswith call_args '','' then ''**kwargs'' else '',**kwargs'')"

section \<open>Python objects\<close>

text \<open>
  Modules, classes and functions are objects of a store; an address is an index into it.
  An attribute is bound to an object, or its access raises (as it does for a lazily
  imported module whose import fails). An object carries what the code reads by
  reflection: \<^verbatim>\<open>__name__\<close>, \<^verbatim>\<open>__doc__\<close>, its attributes, what
  \<^verbatim>\<open>inspect.signature(obj).parameters\<close> returns and what \<^verbatim>\<open>inspect.getsource(obj)\<close> returns
  (\<open>None\<close> where the call raises).
\<close>

type_synonym addr = nat

datatype attr_slot = Bound addr | Failing py_exc

record py_object =
  obj_name :: string
  obj_doc :: "string option"
  obj_attrs :: "(string \<times> attr_slot) list"
  obj_signature :: "signature option"
  obj_source :: "string option"

type_synonym heap = "py_object list"

text \<open>
  \<^verbatim>\<open>getattr(a, n)\<close>. A missing attribute raises \<^verbatim>\<open>AttributeError\<close>; so does, in this model,
  a binding to an address that holds no object.
\<close>

definition getattr :: "heap \<Rightarrow> addr \<Rightarrow> string \<Rightarrow> py_exc + addr" where
  "getattr h a n =
     (if a < length h then
        (case map_of (obj_attrs (h ! a)) n of
           None \<Rightarrow> Inl AttributeError
         | Some (Failing e) \<Rightarrow> Inl e
         | Some (Bound b) \<Rightarrow> if b < length h then Inr b else Inl AttributeError)
      else Inl AttributeError)"

text \<open>\<^verbatim>\<open>hasattr(a, n)\<close>: only \<^verbatim>\<open>AttributeError\<close> means False, any other exception goes on.\<close>

definition hasattr :: "heap \<Rightarrow> addr \<Rightarrow> string \<Rightarrow> py_exc + bool" where
  "hasattr h a n =
     (case getattr h a n of
        Inr b \<Rightarrow> Inr True
      | Inl AttributeError \<Rightarrow> Inr False
      | Inl e \<Rightarrow> Inl e)"

text \<open>
  \<^verbatim>\<open>dir(a)\<close>: the names of the attributes, each once. Python sorts them; the code uses the
  order only where it hands the names to \<^verbatim>\<open>create_new_function\<close>.
\<close>

definition dir :: "heap \<Rightarrow> addr \<Rightarrow> string list" where
  "dir h a = remdups (map fst (obj_attrs (h ! a)))"

text \<open>\<^verbatim>\<open>a.n = v\<close>\<close>

definition setattr :: "heap \<Rightarrow> addr \<Rightarrow> string \<Rightarrow> addr \<Rightarrow> heap" where
  "setattr h a n v = h[a := (h ! a)\<lparr>obj_attrs := AList.update n (Bound v) (obj_attrs (h ! a))\<rparr>]"

text \<open>The value of a dotted expression \<^verbatim>\<open>root.n1.n2...\<close>\<close>

fun resolve :: "heap \<Rightarrow> addr \<Rightarrow> string list \<Rightarrow> py_exc + addr" where
  "resolve h a [] = Inr a"
| "resolve h a (n # ns) =
     (case getattr h a n of
        Inl e \<Rightarrow> Inl e
      | Inr b \<Rightarrow> resolve h b ns)"

text \<open>The statement \<^verbatim>\<open>root.n1.n2....n = v\<close>, as the \<^verbatim>\<open>exec\<close> calls of lines 407-414 run it.\<close>

definition assign :: "heap \<Rightarrow> addr \<Rightarrow> string list \<Rightarrow> string \<Rightarrow> addr \<Rightarrow> py_exc + heap" where
  "assign h start path n v =
     (case resolve h start path of
        Inl e \<Rightarrow> Inl e
      | Inr a \<Rightarrow> Inr (setattr h a n v))"

text \<open>
  The state of the interpreter: the store and the module \<^verbatim>\<open>trl\<close>. The module
  \<^verbatim>\<open>trl.trainer\<close> is the attribute \<open>trainer\<close> of \<open>trl\<close>; \<^verbatim>\<open>import trl.trainer\<close> fails when that
  attribute cannot be read.
\<close>

record py_state =
  heap :: heap
  trl :: addr

section \<open>External libraries\<close>

text \<open>
  The regular expressions of \<^verbatim>\<open>patch_vllm\<close>, \<^verbatim>\<open>unsloth_zoo.compiler.create_new_function\<close> and
  \<^verbatim>\<open>unsloth_zoo.logging_utils.PatchRLStatistics\<close> are library code. They are parameters:
  \<^item> \<open>re_sub pattern repl string count\<close> is \<^verbatim>\<open>re.sub(pattern, repl, string, count)\<close>, with
    \<open>count = 0\<close> for every match;
  \<^item> \<open>re_findall pattern string\<close> is \<^verbatim>\<open>re.findall(pattern, string, flags = re.MULTILINE | re.DOTALL)\<close>,
    every match given as the list of its groups;
  \<^item> \<open>create_new_function name source location imports\<close> raises or returns the classes that
    the compiled source defines. A class statement binds a class under its own
    \<^verbatim>\<open>__name__\<close>, so that \<^verbatim>\<open>created_module.N\<close> is the class named \<open>N\<close>;
  \<^item> \<open>PatchRLStatistics algorithm\<close> changes the store and returns or raises.
\<close>

record externals =
  re_sub :: "string \<Rightarrow> string \<Rightarrow> string \<Rightarrow> nat \<Rightarrow> string"
  re_findall :: "string \<Rightarrow> string \<Rightarrow> string list list"
  create_new_function :: "string \<Rightarrow> string \<Rightarrow> string \<Rightarrow> string list \<Rightarrow> py_exc + py_object list"
  PatchRLStatistics :: "string \<Rightarrow> heap \<Rightarrow> py_exc option \<times> heap"

text \<open>\<^verbatim>\<open>created_module.N\<close>, for a module whose classes were put behind the store \<open>h\<close>.\<close>

fun created_attr :: "nat \<Rightarrow> py_object list \<Rightarrow> string \<Rightarrow> py_exc + addr" where
  "created_attr base [] n = Inl AttributeError"
| "created_attr base (x # xs) n =
     (if obj_name x = n then Inr base else created_attr (Suc base) xs n)"

section \<open>\<^verbatim>\<open>patch_vllm\<close> (source lines 418-537)\<close>


text \<open>The pattern of source line 430.\<close>

definition pattern_signature_end :: string where
  "pattern_signature_end =
     BS @ '')([ ]{0,}'' @ BS @ ''-'' @ BS @ ''>[ ]{0,}None[ ]{0,}):'' @ BS @ ''n(['' @ BS @ ''s]{4})''"

text \<open>The replacement of source line 430.\<close>

definition repl_use_vllm :: string where
  "repl_use_vllm =
     ''):'' @ BS @ ''n'' @ BS @ ''2    if hasattr(model, '' @ SQ @ ''vllm_engine'' @ SQ @ '') and getattr(args, '' @ SQ @ ''use_vllm'' @ SQ @ '') and getattr(args, '' @ SQ @ ''use_vllm'' @ SQ @ '', False): args.use_vllm = True'' @ BS @ ''n'' @ BS @ ''2''"

text \<open>The pattern of source line 439.\<close>

definition pattern_vllm_part :: string where
  "pattern_vllm_part =
     ''('' @ BS @ ''n['' @ BS @ ''s]{8}if (self|args)'' @ BS @ ''.use_vllm'' @ BS @ '':.+?'' @ BS @ ''n['' @ BS @ ''s]{8,}else:\<newline>'' @
     '')''"

text \<open>The pattern of source line 450.\<close>

definition pattern_comment :: string where
  "pattern_comment =
     BS @ ''#[^'' @ BS @ ''n]{1,}'' @ BS @ ''n''"

text \<open>The pattern of source line 453.\<close>

definition pattern_sampling_params :: string where
  "pattern_sampling_params =
     BS @ ''n['' @ BS @ ''s]{4,}(self'' @ BS @ ''.[^'' @ BS @ ''s]{1,}['' @ BS @ ''s]{0,}'' @ BS @ ''=['' @ BS @ ''s]{0,}SamplingParams'' @ BS @ ''(.+?'' @ BS @ ''))''"

text \<open>The pattern of source line 488.\<close>

definition pattern_driver_worker :: string where
  "pattern_driver_worker =
     ''('' @ BS @ ''n['' @ BS @ ''s]{4,}).+?model_executor'' @ BS @ ''.driver_worker.+?'' @ BS @ ''n''"

text \<open>The replacement of source line 488.\<close>

definition repl_pass :: string where
  "repl_pass =
     BS @ ''n'' @ BS @ ''1pass'' @ BS @ ''n''"

text \<open>The pattern of source line 495.\<close>

definition pattern_load_weights :: string where
  "pattern_load_weights =
     ''('' @ BS @ ''n['' @ BS @ ''s]{4,}).+?load_weights'' @ BS @ ''(.+?'' @ BS @ ''n''"

text \<open>The pattern of source line 502.\<close>

definition pattern_state_dict :: string where
  "pattern_state_dict =
     BS @ ''.state_dict'' @ BS @ ''('' @ BS @ '')''"

text \<open>The pattern of source line 510.\<close>

definition pattern_llm_generate :: string where
  "pattern_llm_generate =
     ''(self'' @ BS @ ''.llm'' @ BS @ ''.(?:generate|chat)'' @ BS @ ''([^'' @ BS @ '')]{1,})'' @ BS @ '')''"
text \<open>
  \<^verbatim>\<open>
  init = init.replace("elif peft_config is None:", "elif False:")
  init = init.replace("elif peft_config is not None:", "elif False:")
  init = init.replace("if peft_config is None:", "if False:")
  init = init.replace("if peft_config is not None:", "if False:")
  init = init.replace("get_peft_model(model, peft_config)", "model")
  \<close>
\<close>

definition remove_peft_config :: "string \<Rightarrow> string" where
  "remove_peft_config init0 =
     (let init = replace ''elif peft_config is None:'' ''elif False:'' init0;
          init = replace ''elif peft_config is not None:'' ''elif False:'' init;
          init = replace ''if peft_config is None:'' ''if False:'' init;
          init = replace ''if peft_config is not None:'' ''if False:'' init
      in replace ''get_peft_model(model, peft_config)'' ''model'' init)"

text \<open>
  Source lines 429-471. The first \<^verbatim>\<open>findall\<close> has two groups and the second has one, so a
  single match is a list of two strings and of one string.
\<close>

definition use_vllm_engine :: "externals \<Rightarrow> string \<Rightarrow> string" where
  "use_vllm_engine ext init0 =
     (let init = re_sub ext pattern_signature_end repl_use_vllm init0 1 in
      case re_findall ext pattern_vllm_part init of
        [[vllm_part, args]] \<Rightarrow>
          (let new_vllm_part = re_sub ext pattern_comment [] vllm_part 0 in
           case re_findall ext pattern_sampling_params new_vllm_part of
             [[sampling_params0]] \<Rightarrow>
               (let sampling_params =
                      spaces 12 @ ''self.llm = model.vllm_engine; self._last_loaded_step = 0; '' @
                      sampling_params0;
                    new_vllm_part =
                      ''\<newline>'' @ spaces 8 @ ''if '' @ args @ ''.use_vllm:\<newline>'' @ sampling_params @
                      '' if getattr(args, '' @ SQ @ ''sampling_params'' @ SQ @ '', None) is None else '' @
                      ''getattr(args, '' @ SQ @ ''sampling_params'' @ SQ @ '', None)\<newline>'' @
                      spaces 8 @ ''else:\<newline>''
                in replace vllm_part new_vllm_part init)
           | _ \<Rightarrow> init)
      | _ \<Rightarrow> init)"

text \<open>Source lines 487-514: the four substitutions applied to the source of a method.\<close>

definition rewrite_function_source :: "externals \<Rightarrow> string \<Rightarrow> string \<Rightarrow> string" where
  "rewrite_function_source ext trainer_file source0 =
     (let source = re_sub ext pattern_driver_worker repl_pass source0 0;
          source = re_sub ext pattern_load_weights repl_pass source 0;
          source = re_sub ext pattern_state_dict [] source 0;
          lora_name = trainer_file @ ''_lora_model''
      in re_sub ext pattern_llm_generate
           (BS @ ''1, lora_request = self.model.load_lora('' @ SQ @ lora_name @ SQ @
            '', load_tensors = True))'')
           source 0)"

text \<open>A \<^verbatim>\<open>for\<close> loop whose body may raise: the loop stops at the first exception.\<close>

fun for_each :: "('s \<Rightarrow> 'x \<Rightarrow> py_exc + 's) \<Rightarrow> 's \<Rightarrow> 'x list \<Rightarrow> py_exc + 's" where
  "for_each f s [] = Inr s"
| "for_each f s (x # xs) =
     (case f s x of
        Inl e \<Rightarrow> Inl e
      | Inr s' \<Rightarrow> for_each f s' xs)"

text \<open>
  One round of the loop of lines 480-523. The dictionary \<open>changed\<close> is an association list
  in insertion order; \<^verbatim>\<open>imports += ...\<close> extends the list of the caller in place, so the
  extended list is part of the result.
\<close>

definition patch_function ::
  "externals \<Rightarrow> heap \<Rightarrow> addr \<Rightarrow> string \<Rightarrow> string list \<Rightarrow>
   (string \<times> string \<times> string) list \<times> string list \<Rightarrow> string \<Rightarrow>
   py_exc + ((string \<times> string \<times> string) list \<times> string list)" where
  "patch_function ext h RLTrainer trainer_file all_imports acc function =
     (case acc of (changed, imports) \<Rightarrow>
      case hasattr h RLTrainer function of
        Inl e \<Rightarrow> Inl e
      | Inr False \<Rightarrow> Inr acc
      | Inr True \<Rightarrow>
          (case getattr h RLTrainer function of
             Inl e \<Rightarrow> Inl e
           | Inr fx \<Rightarrow>
               (case obj_source (h ! fx) of
                  None \<Rightarrow> Inr acc
                | Some original_source \<Rightarrow>
                    let source = rewrite_function_source ext trainer_file original_source in
                    if source = original_source then Inr acc
                    else Inr (AList.update function (original_source, source) changed,
                              imports @ filter (\<lambda>x. \<not> startswith x ''_'' \<and> py_in x source)
                                          all_imports))))"

text \<open>
  \<^verbatim>\<open>
  RLTrainer_source = RLTrainer_source.replace(
      f"class {RLTrainer_name}", f"class _Unsloth{RLTrainer_name}", 1)
  \<close>
\<close>

definition rename_trainer_class :: "string \<Rightarrow> string \<Rightarrow> string" where
  "rename_trainer_class RLTrainer_name RLTrainer_source =
     replace_first (''class '' @ RLTrainer_name) (''class _Unsloth'' @ RLTrainer_name)
       RLTrainer_source"

text \<open>
  The whole function. \<^verbatim>\<open>inspect.getsource\<close> raises \<^verbatim>\<open>OSError\<close> when there is no source. The
  result is the rewritten class source and the extended list \<open>imports\<close>.
\<close>

definition patch_vllm ::
  "externals \<Rightarrow> heap \<Rightarrow> addr \<Rightarrow> string \<Rightarrow> string \<Rightarrow> string list \<Rightarrow> string list \<Rightarrow>
   py_exc + (string \<times> string list)" where
  "patch_vllm ext h RLTrainer trainer_file RLTrainer_name all_imports imports =
     (case getattr h RLTrainer ''__init__'' of
        Inl e \<Rightarrow> Inl e
      | Inr init_function \<Rightarrow>
     (case obj_source (h ! init_function) of
        None \<Rightarrow> Inl OSError
      | Some old_init \<Rightarrow>
          let init = use_vllm_engine ext (remove_peft_config old_init);
              functions = dir h RLTrainer
          in
          (case obj_source (h ! RLTrainer) of
             None \<Rightarrow> Inl OSError
           | Some RLTrainer_source \<Rightarrow>
               let functions = filter (\<lambda>x. py_in (''def '' @ x) RLTrainer_source) functions in
               (case for_each (patch_function ext h RLTrainer trainer_file all_imports)
                       ([(''__init__'', (old_init, init))], imports) functions of
                  Inl e \<Rightarrow> Inl e
                | Inr (changed, imports') \<Rightarrow>
                    let patched = foldl (\<lambda>s entry. replace (fst (snd entry)) (snd (snd entry)) s)
                                    RLTrainer_source changed
                    in Inr (rename_trainer_class RLTrainer_name patched, imports')))))"

section \<open>\<^verbatim>\<open>_patch_trl_rl_trainers\<close> (source lines 123-415)\<close>

text \<open>
  \<open>trainer_file\<close> is the name of an attribute of \<^verbatim>\<open>trl.trainer\<close>: the only caller,
  \<^verbatim>\<open>patch_trl_rl_trainers\<close>, passes entries of \<^verbatim>\<open>dir(trl.trainer)\<close>, and
  \<^verbatim>\<open>eval(f"trl.trainer.{trainer_file}")\<close> then reads that attribute.

  \<^verbatim>\<open>
  name   = [x for x in dir(trainer) if x.endswith("Trainer") and x != "Trainer"
            and trainer_file.split("_")[0] in x.lower()]
  config = [x for x in dir(trainer) if x.endswith("Config")  and x != "Config"
            and trainer_file.split("_")[0] in x.lower()]
  \<close>
\<close>

definition class_names :: "string \<Rightarrow> heap \<Rightarrow> addr \<Rightarrow> string \<Rightarrow> string list" where
  "class_names ending h trainer trainer_file =
     filter (\<lambda>x. endswith x ending \<and> x \<noteq> ending \<and>
                 py_in (hd (py_split_char CHR ''_'' trainer_file)) (lower x))
       (dir h trainer)"

text \<open>
  Source lines 125-144, the reflective lookups. The function raises (when an import
  fails), returns early, or has found the module \<^verbatim>\<open>trl.trainer\<close>, the module \<open>trainer\<close>,
  the two names and the two classes.
\<close>

datatype lookup =
    Lookup_raises py_exc
  | Lookup_returns
  | Found addr addr string string addr addr

definition resolve_classes :: "string \<Rightarrow> py_state \<Rightarrow> lookup" where
  "resolve_classes trainer_file s =
     (let h = heap s in
      case getattr h (trl s) ''trainer'' of
        Inl e \<Rightarrow> Lookup_raises ImportError
      | Inr trl_trainer \<Rightarrow>
      (case getattr h trl_trainer trainer_file of
         Inl e \<Rightarrow> Lookup_returns
       | Inr trainer \<Rightarrow>
           let name = class_names ''Trainer'' h trainer trainer_file;
               config = class_names ''Config'' h trainer trainer_file
           in
           if length name \<noteq> 1 then Lookup_returns
           else if length config \<noteq> 1 then Lookup_returns
           else
             let RLTrainer_name = hd name;
                 RLConfig_name = hd config
             in
             (case resolve h (trl s) [''trainer'', trainer_file, RLTrainer_name] of
                Inl e \<Rightarrow> Lookup_returns
              | Inr RLTrainer \<Rightarrow>
              (case resolve h (trl s) [''trainer'', trainer_file, RLConfig_name] of
                 Inl e \<Rightarrow> Lookup_returns
               | Inr RLConfig \<Rightarrow>
                   Found trl_trainer trainer RLTrainer_name RLConfig_name RLTrainer RLConfig))))"

text \<open>
  Source lines 146-148:
  \<^verbatim>\<open>
  if RLTrainer.__name__.startswith("Unsloth"): return
  if RLConfig .__name__.startswith("Unsloth"): return
  \<close>
\<close>

definition lookup_classes :: "string \<Rightarrow> py_state \<Rightarrow> lookup" where
  "lookup_classes trainer_file s =
     (case resolve_classes trainer_file s of
        Found trl_trainer trainer RLTrainer_name RLConfig_name RLTrainer RLConfig \<Rightarrow>
          if startswith (obj_name (heap s ! RLTrainer)) ''Unsloth'' then Lookup_returns
          else if startswith (obj_name (heap s ! RLConfig)) ''Unsloth'' then Lookup_returns
          else Found trl_trainer trainer RLTrainer_name RLConfig_name RLTrainer RLConfig
      | Lookup_raises e \<Rightarrow> Lookup_raises e
      | Lookup_returns \<Rightarrow> Lookup_returns)"

text \<open>
  \<^verbatim>\<open>inspect.signature(RLobject.__init__).parameters\<close>; \<^verbatim>\<open>inspect.signature\<close> raises
  \<^verbatim>\<open>ValueError\<close> when the callable has no signature.
\<close>

definition init_signature :: "heap \<Rightarrow> addr \<Rightarrow> py_exc + signature" where
  "init_signature h RLobject =
     (case getattr h RLobject ''__init__'' of
        Inl e \<Rightarrow> Inl e
      | Inr init_function \<Rightarrow>
          (case obj_signature (h ! init_function) of
             None \<Rightarrow> Inl ValueError
           | Some parameters \<Rightarrow> Inr parameters))"

text \<open>\<^verbatim>\<open>f"{doc}"\<close> for a \<^verbatim>\<open>__doc__\<close> that is a string or None.\<close>

definition format_doc :: "string option \<Rightarrow> string" where
  "format_doc doc = (case doc of None \<Rightarrow> ''None'' | Some text \<Rightarrow> text)"

text \<open>
  Source lines 150-404: the synthesis of the module source and its compilation. The test
  \<^verbatim>\<open>RLTrainer_extras is None\<close> of line 371 never holds, since \<^verbatim>\<open>patch_vllm\<close> returns a string
  whenever it returns. The statement \<^verbatim>\<open>from trl.trainer import (...)\<close> of line 375 raises
  \<^verbatim>\<open>ImportError\<close> when \<^verbatim>\<open>trl.trainer\<close> lacks one of the two names.
\<close>

definition synthesize ::
  "externals \<Rightarrow> heap \<Rightarrow> string \<Rightarrow> addr \<Rightarrow> addr \<Rightarrow> string \<Rightarrow> string \<Rightarrow> addr \<Rightarrow> addr \<Rightarrow>
   py_exc + py_object list" where
  "synthesize ext h trainer_file trl_trainer trainer RLTrainer_name RLConfig_name RLTrainer RLConfig =
     (let all_imports = dir h trainer;
          imports = filter (\<lambda>x. \<not> startswith x ''_'') all_imports
      in
      case init_signature h RLTrainer of
        Inl e \<Rightarrow> Inl e
      | Inr trainer_parameters \<Rightarrow>
      (case init_signature h RLConfig of
         Inl e \<Rightarrow> Inl e
       | Inr parameters \<Rightarrow>
           let RLTrainer_call_args = RLTrainer_call_args trainer_parameters parameters;
               RLConfig_call_args = RLConfig_call_args parameters
           in
           (case patch_vllm ext h RLTrainer trainer_file RLTrainer_name all_imports imports of
              Inl e \<Rightarrow> Inl e
            | Inr (RLTrainer_extras, imports') \<Rightarrow>
            (case getattr h trl_trainer RLTrainer_name of
               Inl e \<Rightarrow> Inl ImportError
             | Inr trainer_class \<Rightarrow>
             (case getattr h trl_trainer RLConfig_name of
                Inl e \<Rightarrow> Inl ImportError
              | Inr config_class \<Rightarrow>
                  let RLTrainer_source = RLTrainer_replacement_format
                        \<lparr>f_RLConfig_name = RLConfig_name,
                         f_doc_RLConfig_doc = format_doc (obj_doc (h ! config_class)),
                         f_RLConfig_arguments = RLConfig_arguments parameters,
                         f_RLConfig_extra_args = RLConfig_extra_args RLConfig_call_args,
                         f_RLConfig_call_args = RLConfig_call_args,
                         f_RLConfig_kwargs = kwargs_text RLConfig_call_args,
                         f_RLTrainer_extras = RLTrainer_extras,
                         f_RLTrainer_name = RLTrainer_name,
                         f_doc_RLTrainer_doc = format_doc (obj_doc (h ! trainer_class)),
                         f_RLTrainer_arguments = RLTrainer_arguments trainer_parameters parameters,
                         f_RLTrainer_extra_args = RLTrainer_extra_args RLTrainer_call_args trainer_file,
                         f_RLTrainer_call_args = RLTrainer_call_args,
                         f_RLTrainer_kwargs = kwargs_text RLTrainer_call_args,
                         f_RLTrainer_post = RLTrainer_post RLTrainer_call_args\<rparr>
                  in create_new_function ext (''Unsloth'' @ RLTrainer_name) RLTrainer_source
                       (''trl.trainer.'' @ trainer_file) imports')))))"

text \<open>
  Source lines 406-414, the six assignments. Each \<^verbatim>\<open>exec\<close> reads its right-hand side
  \<^verbatim>\<open>created_module.Unsloth...\<close> first and then resolves its target again, in the store as
  the assignments before it have left it. The result is the store at the end, or at the
  statement that raised.
\<close>

definition exec_assign ::
  "addr \<Rightarrow> nat \<Rightarrow> py_object list \<Rightarrow> heap \<Rightarrow> string list \<times> string \<times> string \<Rightarrow> py_exc option \<times> heap" where
  "exec_assign trl_module base created h stmt =
     (case stmt of (path, n, class_name) \<Rightarrow>
        case created_attr base created class_name of
          Inl e \<Rightarrow> (Some e, h)
        | Inr v \<Rightarrow>
            (case assign h trl_module path n v of
               Inl e \<Rightarrow> (Some e, h)
             | Inr h' \<Rightarrow> (None, h')))"

fun exec_all ::
  "addr \<Rightarrow> nat \<Rightarrow> py_object list \<Rightarrow> heap \<Rightarrow> (string list \<times> string \<times> string) list \<Rightarrow>
   py_exc option \<times> heap" where
  "exec_all trl_module base created h [] = (None, h)"
| "exec_all trl_module base created h (stmt # stmts) =
     (case exec_assign trl_module base created h stmt of
        (Some e, h') \<Rightarrow> (Some e, h')
      | (None, h') \<Rightarrow> exec_all trl_module base created h' stmts)"

definition install ::
  "addr \<Rightarrow> string \<Rightarrow> string \<Rightarrow> string \<Rightarrow> heap \<Rightarrow> py_object list \<Rightarrow> py_exc option \<times> heap" where
  "install trl_module trainer_file RLTrainer_name RLConfig_name h created =
     exec_all trl_module (length h) created (h @ created)
       [([], RLTrainer_name, ''Unsloth'' @ RLTrainer_name),
        ([''trainer''], RLTrainer_name, ''Unsloth'' @ RLTrainer_name),
        ([''trainer'', trainer_file], RLTrainer_name, ''Unsloth'' @ RLTrainer_name),
        ([], RLConfig_name, ''Unsloth'' @ RLConfig_name),
        ([''trainer''], RLConfig_name, ''Unsloth'' @ RLConfig_name),
        ([''trainer'', trainer_file], RLConfig_name, ''Unsloth'' @ RLConfig_name)]"

text \<open>
  The function: how it ended and the state it left. \<open>Early_return\<close> is one of the
  \<^verbatim>\<open>return\<close> statements of lines 130-148, \<open>Completed\<close> the end of the body.
\<close>

datatype outcome = Early_return | Completed | Raises py_exc

definition underscore_patch_trl_rl_trainers ::
  "externals \<Rightarrow> string \<Rightarrow> py_state \<Rightarrow> outcome \<times> py_state" where
  "underscore_patch_trl_rl_trainers ext trainer_file s =
     (case lookup_classes trainer_file s of
        Lookup_raises e \<Rightarrow> (Raises e, s)
      | Lookup_returns \<Rightarrow> (Early_return, s)
      | Found trl_trainer trainer RLTrainer_name RLConfig_name RLTrainer RLConfig \<Rightarrow>
          (case synthesize ext (heap s) trainer_file trl_trainer trainer
                  RLTrainer_name RLConfig_name RLTrainer RLConfig of
             Inl e \<Rightarrow> (Raises e, s)
           | Inr created \<Rightarrow>
               (case install (trl s) trainer_file RLTrainer_name RLConfig_name (heap s) created of
                  (Some e, h') \<Rightarrow> (Raises e, s\<lparr>heap := h'\<rparr>)
                | (None, h') \<Rightarrow> (Completed, s\<lparr>heap := h'\<rparr>))))"

section \<open>\<^verbatim>\<open>patch_trl_rl_trainers\<close>, \<^verbatim>\<open>PatchRL\<close> and \<^verbatim>\<open>PatchFastRL\<close>\<close>

text \<open>
  \<^verbatim>\<open>
  def patch_trl_rl_trainers():
      import trl.trainer
      all_trainers = dir(trl.trainer)
      all_trainers = [x for x in all_trainers if x.islower() and x.endswith("_trainer")]
      for trainer in all_trainers:
          _patch_trl_rl_trainers(trainer)
      return
  \<close>
\<close>

fun patch_each :: "externals \<Rightarrow> py_state \<Rightarrow> string list \<Rightarrow> py_exc option \<times> py_state" where
  "patch_each ext s [] = (None, s)"
| "patch_each ext s (trainer # trainers) =
     (case underscore_patch_trl_rl_trainers ext trainer s of
        (Raises e, s') \<Rightarrow> (Some e, s')
      | (r, s') \<Rightarrow> patch_each ext s' trainers)"

definition patch_trl_rl_trainers :: "externals \<Rightarrow> py_state \<Rightarrow> py_exc option \<times> py_state" where
  "patch_trl_rl_trainers ext s =
     (case getattr (heap s) (trl s) ''trainer'' of
        Inl e \<Rightarrow> (Some ImportError, s)
      | Inr trl_trainer \<Rightarrow>
          patch_each ext s
            (filter (\<lambda>x. islower x \<and> endswith x ''_trainer'') (dir (heap s) trl_trainer)))"

text \<open>
  \<^verbatim>\<open>PatchRL\<close> (source lines 28-71). The import of line 30 raises \<^verbatim>\<open>ImportError\<close> when
  \<^verbatim>\<open>trl.models.utils\<close> has no \<^verbatim>\<open>unwrap_model_for_generation\<close>. The context manager defined in
  lines 33-58 is a new function object. In the loop both \<^verbatim>\<open>try\<close> statements have a bare
  \<^verbatim>\<open>except: continue\<close>; the \<^verbatim>\<open>hasattr\<close> between them is not guarded.
\<close>

definition unwrap :: string where
  "unwrap = ''unwrap_model_for_generation''"

definition patch_unwrap :: "addr \<Rightarrow> addr \<Rightarrow> heap \<Rightarrow> string \<Rightarrow> py_exc + heap" where
  "patch_unwrap trl_module new_function h trainer =
     (case resolve h trl_module [''trainer'', trainer] of
        Inl e \<Rightarrow> Inr h
      | Inr current_trainer \<Rightarrow>
          (case hasattr h current_trainer unwrap of
             Inl e \<Rightarrow> Inl e
           | Inr False \<Rightarrow> Inr h
           | Inr True \<Rightarrow>
               (case assign h trl_module [''trainer'', trainer] unwrap new_function of
                  Inl e \<Rightarrow> Inr h
                | Inr h' \<Rightarrow> Inr h')))"

definition PatchRL :: "py_state \<Rightarrow> py_exc option \<times> py_state" where
  "PatchRL s =
     (case resolve (heap s) (trl s) [''models'', ''utils'', unwrap] of
        Inl e \<Rightarrow> (Some ImportError, s)
      | Inr unwrap_model_for_generation \<Rightarrow>
          let new_function = length (heap s);
              h = heap s @ [\<lparr>obj_name = ''unsloth_'' @ unwrap, obj_doc = None, obj_attrs = [],
                             obj_signature = None, obj_source = None\<rparr>]
          in
          (case getattr h (trl s) ''trainer'' of
             Inl e \<Rightarrow> (Some ImportError, s\<lparr>heap := h\<rparr>)
           | Inr trl_trainer \<Rightarrow>
               (case for_each (patch_unwrap (trl s) new_function) h
                       (filter (\<lambda>x. endswith x ''_trainer'') (dir h trl_trainer)) of
                  Inl e \<Rightarrow> (Some e, s\<lparr>heap := h\<rparr>)
                | Inr h' \<Rightarrow> (None, s\<lparr>heap := h'\<rparr>))))"

text \<open>
  \<^verbatim>\<open>
  def PatchFastRL(algorithm = None, FastLanguageModel = None):
      if FastLanguageModel is not None: PatchRL(FastLanguageModel)
      patch_trl_rl_trainers()
      if algorithm is not None: PatchRLStatistics(algorithm)
  \<close>
  \<^verbatim>\<open>PatchRL\<close> does not look at its argument outside the context manager that it defines, and
  \<^verbatim>\<open>PatchRLStatistics\<close> is external. An exception of any of the three calls leaves the
  function at once.
\<close>

definition PatchFastRL ::
  "externals \<Rightarrow> string option \<Rightarrow> 'f option \<Rightarrow> py_state \<Rightarrow> py_exc option \<times> py_state" where
  "PatchFastRL ext algorithm FastLanguageModel s =
     (case (case FastLanguageModel of None \<Rightarrow> (None, s) | Some flm \<Rightarrow> PatchRL s) of
        (Some e, s1) \<Rightarrow> (Some e, s1)
      | (None, s1) \<Rightarrow>
          (case patch_trl_rl_trainers ext s1 of
             (Some e, s2) \<Rightarrow> (Some e, s2)
           | (None, s2) \<Rightarrow>
               (case algorithm of
                  None \<Rightarrow> (None, s2)
                | Some a \<Rightarrow>
                    (case PatchRLStatistics ext a (heap s2) of
                       (r3, h3) \<Rightarrow> (r3, s2\<lparr>heap := h3\<rparr>)))))"

section \<open>A small TRL\<close>

text \<open>
  Stores with the shape of the library, for evaluating the functions. In \<open>small_trl\<close>: the
  package \<^verbatim>\<open>trl\<close> (0), \<^verbatim>\<open>trl.trainer\<close> (1) with the module \<^verbatim>\<open>grpo_trainer\<close> (2) and a module
  \<^verbatim>\<open>sft_trainer\<close> whose lazy import fails, the classes \<^verbatim>\<open>GRPOTrainer\<close> (3) and
  \<^verbatim>\<open>GRPOConfig\<close> (4) with their constructors (5, 6), and \<^verbatim>\<open>trl.models.utils\<close> (7, 8) with
  \<^verbatim>\<open>unwrap_model_for_generation\<close> (9).
\<close>

definition plain_object :: "string \<Rightarrow> (string \<times> attr_slot) list \<Rightarrow> py_object" where
  "plain_object n attrs =
     \<lparr>obj_name = n, obj_doc = None, obj_attrs = attrs, obj_signature = None, obj_source = None\<rparr>"

definition function_object :: "string \<Rightarrow> signature \<Rightarrow> string \<Rightarrow> py_object" where
  "function_object n parameters source =
     \<lparr>obj_name = n, obj_doc = None, obj_attrs = [], obj_signature = Some parameters,
      obj_source = Some source\<rparr>"

definition class_object :: "string \<Rightarrow> addr \<Rightarrow> string \<Rightarrow> py_object" where
  "class_object n init_function source =
     \<lparr>obj_name = n, obj_doc = Some ''A class.'', obj_attrs = [(''__init__'', Bound init_function)],
      obj_signature = None, obj_source = Some source\<rparr>"

definition trainer_init :: py_object where
  "trainer_init =
     function_object ''__init__'' [(''self'', EMPTY), (''model'', EMPTY), (''peft_config'', PyNone)]
       (''    def __init__(self, model, peft_config = None):\<newline>'' @
        ''        if peft_config is not None: pass\<newline>'')"

definition config_init :: py_object where
  "config_init =
     function_object ''__init__'' [(''self'', EMPTY), (''seed'', PyInt 42), (''bf16'', PyBool False)]
       ''    def __init__(self, seed = 42, bf16 = False): pass\<newline>''"

definition trainer_class :: py_object where
  "trainer_class =
     class_object ''GRPOTrainer'' 5
       (''class GRPOTrainer(Trainer):\<newline>'' @
        ''    def __init__(self, model, peft_config = None):\<newline>'' @
        ''        if peft_config is not None: pass\<newline>'')"

definition small_trl :: py_state where
  "small_trl =
     \<lparr>heap =
        [plain_object ''trl''
           [(''trainer'', Bound 1), (''models'', Bound 7), (''GRPOTrainer'', Bound 3),
            (''GRPOConfig'', Bound 4)],
         plain_object ''trl.trainer''
           [(''grpo_trainer'', Bound 2), (''sft_trainer'', Failing ImportError),
            (''GRPOTrainer'', Bound 3), (''GRPOConfig'', Bound 4)],
         plain_object ''trl.trainer.grpo_trainer''
           [(''GRPOTrainer'', Bound 3), (''GRPOConfig'', Bound 4)],
         trainer_class,
         class_object ''GRPOConfig'' 6 ''class GRPOConfig(TrainingArguments):\<newline>    pass\<newline>'',
         trainer_init,
         config_init,
         plain_object ''trl.models'' [(''utils'', Bound 8)],
         plain_object ''trl.models.utils'' [(''unwrap_model_for_generation'', Bound 9)],
         function_object ''unwrap_model_for_generation'' [(''model'', EMPTY)] ''def f(): pass''],
      trl = 0\<rparr>"

text \<open>
  In \<open>config_module_trl\<close> the module of the trainer (2) has the name of the config class
  that it defines, \<^verbatim>\<open>grpo_Config\<close> (4); the package has no \<^verbatim>\<open>trl.models\<close>.
\<close>

definition config_module_trl :: py_state where
  "config_module_trl =
     \<lparr>heap =
        [plain_object ''trl'' [(''trainer'', Bound 1)],
         plain_object ''trl.trainer'' [(''grpo_Config'', Bound 2), (''GRPOTrainer'', Bound 3)],
         plain_object ''trl.trainer.grpo_Config''
           [(''GRPOTrainer'', Bound 3), (''grpo_Config'', Bound 4)],
         trainer_class,
         class_object ''grpo_Config'' 6 ''class grpo_Config(TrainingArguments):\<newline>    pass\<newline>'',
         trainer_init,
         config_init],
      trl = 0\<rparr>"

text \<open>
  External libraries for evaluation: regular expressions that match nowhere; a compiler
  that returns the three classes that the synthesized source defines, in the order of the
  template (the config class, the renamed original trainer class and the trainer class),
  the config class under the name given; and statistics that add one object, named as the
  algorithm, to the store.
\<close>

definition small_externals :: "string \<Rightarrow> externals" where
  "small_externals config_class_name =
     \<lparr>re_sub = (\<lambda>pattern repl text count. text),
      re_findall = (\<lambda>pattern text. []),
      create_new_function = (\<lambda>name source location imports.
         Inr [plain_object config_class_name [], plain_object (''_'' @ name) [],
              plain_object name []]),
      PatchRLStatistics = (\<lambda>algorithm h. (None, h @ [plain_object algorithm []]))\<rparr>"


section \<open>Properties of the hook and of the context manager\<close>

text \<open>
  Claim C10. For every module, input and output, \<open>neftune_post_forward_hook\<close> returns the
  output it was given, with no noise added, whenever \<open>module.training\<close> is False.
\<close>

theorem neftune_hook_eval_mode_identity:
  "\<not> training mdl \<Longrightarrow> neftune_post_forward_hook torch mdl inp outp = outp"
  by (simp add: neftune_post_forward_hook_def)

theorem neftune_hook_eval_mode_identity_witness:
  "\<not> training \<lparr>training = False, neftune_noise_alpha = 5\<rparr> \<and>
   neftune_post_forward_hook
     \<lparr>tensor_size = (\<lambda>t n. 4), zeros_like = (\<lambda>t. 0), uniform_fill = (\<lambda>t lo hi. hi),
      tensor_add = (\<lambda>a b. a + b)\<rparr>
     \<lparr>training = False, neftune_noise_alpha = 5\<rparr> () (7 :: real) = 7"
  using neftune_hook_eval_mode_identity
    [of "\<lparr>training = False, neftune_noise_alpha = 5\<rparr>"
        "\<lparr>tensor_size = (\<lambda>t n. 4), zeros_like = (\<lambda>t. 0), uniform_fill = (\<lambda>t lo hi. hi),
          tensor_add = (\<lambda>a b. a + b)\<rparr>" "()" "7 :: real"]
  by simp

text \<open>
  Claim C9, as the specification states it, fails: the call of \<open>for_training\<close> comes after
  the assignment that restores \<open>generate\<close>, and nothing in the context manager keeps that
  call (or the exit of TRL's context manager, which follows it) from assigning the
  attribute again. Below, \<open>for_training\<close> installs a \<open>generate\<close> of its own on the model it
  is given, as a function that switches a model between two modes of generation does;
  TRL's context manager yields the model itself. On exit the attribute holds the function
  installed by \<open>for_training\<close>, not the function \<open>Library_generate 5\<close> that was saved.
\<close>

theorem unwrap_for_training_overwrites_generate:
  "unsloth_unwrap_model_for_generation switching_language_model plain_unwrap (\<lambda>m. True) 0
     returning_body generation_world =
     (None, generation_world\<lparr>generate_attr := (generate_attr generation_world)(0 \<mapsto> Library_generate 0)\<rparr>)
   \<and> generate_attr generation_world 0 = Some (Library_generate 5)
   \<and> generate_attr
        (snd (unsloth_unwrap_model_for_generation switching_language_model plain_unwrap
                (\<lambda>m. True) 0 returning_body generation_world)) 0
      \<noteq> Some (Library_generate 5)"
  by (simp add: unsloth_unwrap_model_for_generation_def unwrapped_block_def finally_block_def
      set_generate_def switching_language_model_def plain_unwrap_def returning_body_def
      generation_world_def)

text \<open>
  Claim C9, amended. For every model wrapped by \<open>unsloth_unwrap_model_for_generation\<close>
  (TRL's context manager yielded \<open>unwrapped_model\<close>, \<open>for_inference\<close> returned, the attribute
  \<open>generate\<close> was read as \<open>original_generate\<close> and the wrapper was assigned), and for every
  body of the \<^verbatim>\<open>with\<close> statement, whether it returns or raises and whatever it does to the
  attribute: the \<^verbatim>\<open>finally\<close> clause assigns \<open>original_generate\<close> to
  \<open>unwrapped_model.generate\<close> in the world that the body left, \<open>for_training\<close> is applied to
  \<open>model\<close> in the world so restored, and the exit of TRL's context manager is applied to
  what \<open>for_training\<close> left, with the exception of \<open>for_training\<close> if it raised and with
  that of the body otherwise. When neither \<open>for_training\<close> nor that exit assigns the
  attribute, it holds \<open>original_generate\<close> on exit.
\<close>

theorem unwrap_finally_restores_then_trains:
  assumes "cm_enter um model w = (Inr unwrapped_model, w1)"
    and "for_inference flm unwrapped_model w1 = (None, w2)"
    and "generate_attr w2 unwrapped_model = Some original_generate"
    and "settable unwrapped_model"
  shows "unsloth_unwrap_model_for_generation flm um settable model body w =
           (case body unwrapped_model
                   (w2\<lparr>generate_attr :=
                        (generate_attr w2)(unwrapped_model \<mapsto> Generate_with_clone original_generate)\<rparr>) of
              (raised, w4) \<Rightarrow>
                (case for_training flm model
                        (w4\<lparr>generate_attr :=
                             (generate_attr w4)(unwrapped_model \<mapsto> original_generate)\<rparr>) of
                   (failed, w6) \<Rightarrow>
                     cm_exit um unwrapped_model
                       (case failed of Some e \<Rightarrow> Some e | None \<Rightarrow> raised) w6))
         \<and> ((\<forall>x. generate_attr (snd (for_training flm model x)) unwrapped_model =
                   generate_attr x unwrapped_model) \<and>
              (\<forall>r x. generate_attr (snd (cm_exit um unwrapped_model r x)) unwrapped_model =
                   generate_attr x unwrapped_model)
              \<longrightarrow> generate_attr
                     (snd (unsloth_unwrap_model_for_generation flm um settable model body w))
                     unwrapped_model = Some original_generate)"
proof -
  let ?w3 = "w2\<lparr>generate_attr :=
      (generate_attr w2)(unwrapped_model \<mapsto> Generate_with_clone original_generate)\<rparr>"
  obtain raised w4 where b: "body unwrapped_model ?w3 = (raised, w4)"
    by (cases "body unwrapped_model ?w3")
  let ?w5 = "w4\<lparr>generate_attr := (generate_attr w4)(unwrapped_model \<mapsto> original_generate)\<rparr>"
  obtain failed w6 where t: "for_training flm model ?w5 = (failed, w6)"
    by (cases "for_training flm model ?w5")
  let ?r = "case failed of Some e \<Rightarrow> Some e | None \<Rightarrow> raised"
  have fin: "finally_block flm settable model unwrapped_model original_generate raised w4 = (?r, w6)"
    using assms(4) t by (simp add: finally_block_def set_generate_def split: option.splits)
  have blk: "unwrapped_block flm settable model unwrapped_model body w1 = (?r, w6)"
    using assms(2,3,4) b fin by (simp add: unwrapped_block_def set_generate_def)
  have run: "unsloth_unwrap_model_for_generation flm um settable model body w =
      cm_exit um unwrapped_model ?r w6"
    using assms(1) blk by (simp add: unsloth_unwrap_model_for_generation_def)
  have keep: "generate_attr (snd (cm_exit um unwrapped_model ?r w6)) unwrapped_model =
      Some original_generate"
    if ft: "\<forall>x. generate_attr (snd (for_training flm model x)) unwrapped_model =
                 generate_attr x unwrapped_model"
    and fx: "\<forall>r x. generate_attr (snd (cm_exit um unwrapped_model r x)) unwrapped_model =
                 generate_attr x unwrapped_model"
  proof -
    have "generate_attr (snd (cm_exit um unwrapped_model ?r w6)) unwrapped_model =
        generate_attr w6 unwrapped_model"
      using fx by blast
    also have "\<dots> = generate_attr ?w5 unwrapped_model"
      using ft [rule_format, of ?w5] t by simp
    also have "\<dots> = Some original_generate"
      by simp
    finally show ?thesis .
  qed
  show ?thesis
    using keep by (simp add: run b t)
qed

text \<open>
  An instance: TRL's context manager yields a model of its own (1) for the model 0, the
  body assigns the attribute and raises, and \<open>for_training\<close> leaves the attribute alone.
\<close>

theorem unwrap_finally_restores_then_trains_witness:
  "cm_enter inner_unwrap 0 generation_world = (Inr 1, generation_world)
   \<and> for_inference quiet_language_model 1 generation_world = (None, generation_world)
   \<and> generate_attr generation_world 1 = Some (Library_generate 6)
   \<and> fst (unsloth_unwrap_model_for_generation quiet_language_model inner_unwrap (\<lambda>m. True) 0
            raising_body generation_world) = Some (BodyError 1)
   \<and> generate_attr
        (snd (unsloth_unwrap_model_for_generation quiet_language_model inner_unwrap (\<lambda>m. True) 0
                raising_body generation_world)) 1 = Some (Library_generate 6)"
  using unwrap_finally_restores_then_trains
    [of inner_unwrap 0 generation_world 1 generation_world quiet_language_model generation_world
        "Library_generate 6" "\<lambda>m. True" raising_body]
  by (simp add: inner_unwrap_def quiet_language_model_def generation_world_def raising_body_def)
section \<open>Properties of the argument texts\<close>

lemma signature_step_self:
  "signature_step acc (''self'', v) = acc"
  by (cases acc) (simp add: signature_step_def)

lemma signature_step_other:
  "other_type v \<Longrightarrow> \<not> equals_newline v \<Longrightarrow> signature_step acc (k, v) = acc"
  by (cases acc; cases v) (simp_all add: signature_step_def)

lemma signature_step_kept:
  assumes "k \<noteq> ''self''" and "\<not> other_type v" and "\<not> equals_newline v"
  shows "signature_step (as, cs) (k, v) =
           (as @ [the (stated_argument (k, v))], cs @ [k @ '' = '' @ k])"
  using assms by (cases v) (simp_all add: signature_step_def)

lemma stated_argument_kept:
  "\<not> other_type v \<Longrightarrow> \<exists>y. stated_argument (k, v) = Some y"
  by (cases v) simp_all

lemma foldl_signature_step:
  assumes "\<forall>(k, v) \<in> set ps. \<not> equals_newline v"
  shows "foldl signature_step (as, cs) ps =
     (as @ List.map_filter stated_argument (kept ps),
      cs @ map (\<lambda>(k, v). k @ '' = '' @ k) (kept ps))"
  using assms
proof (induction ps arbitrary: as cs)
  case Nil
  show ?case by (simp add: kept_def List.map_filter_simps)
next
  case (Cons p ps)
  obtain k v where p: "p = (k, v)" by (cases p)
  have nl: "\<not> equals_newline v"
    using Cons.prems by (simp add: p)
  have rest: "\<forall>(k, v) \<in> set ps. \<not> equals_newline v"
    using Cons.prems by simp
  show ?case
  proof (cases "k \<noteq> ''self'' \<and> \<not> other_type v")
    case True
    then have step: "signature_step (as, cs) p =
        (as @ [the (stated_argument (k, v))], cs @ [k @ '' = '' @ k])"
      using nl by (simp add: p signature_step_kept)
    have keep: "kept (p # ps) = (k, v) # kept ps"
      using True by (simp add: kept_def p)
    obtain y where y: "stated_argument (k, v) = Some y"
      using True stated_argument_kept [of v k] by blast
    show ?thesis
      by (simp add: step keep Cons.IH [OF rest] List.map_filter_simps y)
  next
    case False
    then have step: "signature_step (as, cs) p = (as, cs)"
      using signature_step_self signature_step_other nl by (auto simp: p)
    have keep: "kept (p # ps) = kept ps"
      using False by (auto simp: kept_def p)
    show ?thesis
      by (simp add: step keep Cons.IH [OF rest])
  qed
qed

lemma process_signature_stated:
  assumes "\<forall>(k, v) \<in> set ps. \<not> equals_newline v"
  shows "process_signature ps =
           (arguments_text (stated_arguments ps), call_args_text (stated_call_args ps))"
  using foldl_signature_step [OF assms, of "[''self'']" "[]"]
  by (simp add: process_signature_def signature_lists_def arguments_text_def call_args_text_def
      stated_arguments_def stated_call_args_def)

text \<open>
  Claim C2, as the specification states it, fails in three places. The config class
  below has the parameter \<open>seed\<close> with the default 42: in the synthesized argument list of
  the config it stands as \<open>seed = 3407\<close>, the value of the table of lines 309-323, and not
  as \<open>seed = 42\<close>. When the test of line 181 holds, the synthesized trainer forwards
  \<open>processing_class\<close> to the superclass constructor as
  \<open>processing_class = tokenizer if tokenizer is not None else processing_class\<close>, not as
  \<open>processing_class = processing_class\<close>. And a parameter whose default is the string of one
  line feed stands in the list with a backslash before the line feed, which is not its
  default.
\<close>

theorem synthesized_arguments_counterexample:
  "stated_arguments [(''self'', EMPTY), (''seed'', PyInt 42), (''bf16'', PyBool False)] =
     [''self'', ''seed = 42'', ''bf16 = False'']
   \<and> RLConfig_arguments [(''self'', EMPTY), (''seed'', PyInt 42), (''bf16'', PyBool False)] =
     ''\<newline>        self,\<newline>        seed = 3407,\<newline>        bf16 = False''
   \<and> stated_call_args [(''self'', EMPTY), (''model'', EMPTY), (''processing_class'', PyNone)] =
     [''model = model'', ''processing_class = processing_class'']
   \<and> RLTrainer_call_args
       [(''self'', EMPTY), (''model'', EMPTY), (''processing_class'', PyNone)]
       [(''self'', EMPTY), (''processing_class'', PyNone)] =
     ''\<newline>            model = model,\<newline>            processing_class = tokenizer if tokenizer is not None else processing_class''
   \<and> stated_arguments [(''self'', EMPTY), (''sep'', PyStr ''\<newline>'')] =
     [''self'', ''sep = '' @ SQ @ ''\<newline>'' @ SQ]
   \<and> fst (signature_lists [(''self'', EMPTY), (''sep'', PyStr ''\<newline>'')]) =
     [''self'', ''sep = '' @ SQ @ BS @ ''\<newline>'' @ SQ]"
  by code_simp

text \<open>
  Claim C2, amended. For two constructor signatures in which no default compares equal
  to the string of one line feed, the trainer's and the config's: the argument list built
  from a signature has \<open>self\<close> and then, for every parameter other than \<open>self\<close> in order, the
  bare name when the default is empty, \<open>k = 'v'\<close> when the default is a string \<open>v\<close>,
  \<open>k = v\<close> when it is a bool, None, an int or a float, and nothing when it has another type;
  the call arguments built from it are \<open>k = k\<close> for exactly the parameters that were kept.
  The synthesized trainer has this argument list and forwards these call arguments to the
  superclass constructor, except when the test of line 181 holds: then \<open>tokenizer = None\<close>
  is added at the end of the argument list and \<open>processing_class\<close> is forwarded as
  \<open>tokenizer if tokenizer is not None else processing_class\<close>. The synthesized config forwards
  these call arguments, and its argument list is this list after the rewriting of the
  defaults with the table of lines 309-329. (The lists are joined with a comma, a line feed
  and 8 or 12 spaces.)
\<close>

theorem synthesized_arguments_as_stated:
  assumes "\<forall>(k, v) \<in> set trainer_parameters. \<not> equals_newline v"
    and "\<forall>(k, v) \<in> set parameters. \<not> equals_newline v"
  shows "RLTrainer_arguments trainer_parameters parameters =
           (if ''tokenizer'' \<notin> set (map fst parameters) \<and> ''processing_class'' \<in> set (map fst parameters)
            then arguments_text (stated_arguments trainer_parameters) @
                 '',\<newline>'' @ spaces 8 @ ''tokenizer = None''
            else arguments_text (stated_arguments trainer_parameters))
       \<and> RLTrainer_call_args trainer_parameters parameters =
           (if ''tokenizer'' \<notin> set (map fst parameters) \<and> ''processing_class'' \<in> set (map fst parameters)
            then replace ''processing_class = processing_class''
                   ''processing_class = tokenizer if tokenizer is not None else processing_class''
                   (call_args_text (stated_call_args trainer_parameters))
            else call_args_text (stated_call_args trainer_parameters))
       \<and> RLConfig_arguments parameters = edit_defaults (arguments_text (stated_arguments parameters))
       \<and> RLConfig_call_args parameters = call_args_text (stated_call_args parameters)"
  by (simp add: RLTrainer_arguments_def RLTrainer_call_args_def RLConfig_arguments_def
      RLConfig_call_args_def add_tokenizer_def process_signature_stated [OF assms(1)]
      process_signature_stated [OF assms(2)])

text \<open>An instance: the trainer \<open>(self, model, args = None)\<close> and the config \<open>(self, bf16 = False)\<close>.\<close>

theorem synthesized_arguments_as_stated_witness:
  "list_all (\<lambda>(k, v). \<not> equals_newline v)
     [(''self'', EMPTY), (''model'', EMPTY), (''args'', PyNone)]
   \<and> list_all (\<lambda>(k, v). \<not> equals_newline v) [(''self'', EMPTY), (''bf16'', PyBool False)]
   \<and> RLTrainer_arguments [(''self'', EMPTY), (''model'', EMPTY), (''args'', PyNone)]
        [(''self'', EMPTY), (''bf16'', PyBool False)] =
      arguments_text [''self'', ''model'', ''args = None'']
   \<and> RLTrainer_call_args [(''self'', EMPTY), (''model'', EMPTY), (''args'', PyNone)]
        [(''self'', EMPTY), (''bf16'', PyBool False)] =
      call_args_text [''model = model'', ''args = args'']
   \<and> RLConfig_call_args [(''self'', EMPTY), (''bf16'', PyBool False)] =
      call_args_text [''bf16 = bf16'']"
  using synthesized_arguments_as_stated
    [of "[(''self'', EMPTY), (''model'', EMPTY), (''args'', PyNone)]"
        "[(''self'', EMPTY), (''bf16'', PyBool False)]"]
  by (simp add: stated_arguments_def stated_call_args_def kept_def List.map_filter_simps)

section \<open>Properties of the generated preambles\<close>

lemma py_join_Cons: "py_join sep (x # xs) = x @ concat (map ((@) sep) xs)"
  by (induction xs arbitrary: x) auto

lemma py_split_char_nonempty: "py_split_char sep s \<noteq> []"
  by (induction s) (auto split: list.splits)

lemma indent8_chars: "indent8 s = spaces 8 @ indent_tail s"
proof -
  have "py_join ''\<newline>'' (map (\<lambda>x. spaces 8 @ x) (py_split_char CHR ''\<newline>'' s))
          = spaces 8 @ indent_tail s"
  proof (induction s)
    case Nil
    show ?case by simp
  next
    case (Cons c cs)
    obtain l ls where sp: "py_split_char CHR ''\<newline>'' cs = l # ls"
      using py_split_char_nonempty [of "CHR ''\<newline>''" cs]
      by (cases "py_split_char CHR ''\<newline>'' cs") auto
    show ?case using Cons
      by (simp add: sp py_join_Cons)
  qed
  then show ?thesis by (simp add: indent8_def)
qed

lemma indent_tail_append: "indent_tail (a @ b) = indent_tail a @ indent_tail b"
  by (induction a) auto

lemma indent_tail_no_newline: "CHR ''\<newline>'' \<notin> set s \<Longrightarrow> indent_tail s = s"
  by (induction s) auto

text \<open>
  Claim C6, evaluated where it fails. The trainer below has the constructor
  \<open>(self, model_init = None, args = None)\<close>: the call arguments that are forwarded are
  \<open>model_init\<close> and \<open>args\<close>, and no argument \<open>model\<close> is forwarded, since the constructor has
  none. The test of line 191 looks for the letters \<open>model\<close> anywhere in the text of the call
  arguments and finds them in \<open>model_init\<close>: the preamble has the mixed-precision block,
  which reads \<open>model.config\<close>, at its start (and, by the same test in lines 242 and 263, the
  blocks \<open>length_check\<close> and \<open>training_check\<close>).
\<close>

lemma model_init_call_args:
  "RLTrainer_call_args [(''self'', EMPTY), (''model_init'', PyNone), (''args'', PyNone)]
     [(''self'', EMPTY), (''output_dir'', PyNone)] =
     ''\<newline>            model_init = model_init,\<newline>            args = args''"
  by code_simp

lemma model_init_tests:
  "py_in ''args'' ''\<newline>            model_init = model_init,\<newline>            args = args''"
  "py_in ''model'' ''\<newline>            model_init = model_init,\<newline>            args = args''"
  "\<not> py_in ''eval_dataset'' ''\<newline>            model_init = model_init,\<newline>            args = args''"
  by code_simp+

theorem mixed_precision_for_model_init:
  "snd (signature_lists [(''self'', EMPTY), (''model_init'', PyNone), (''args'', PyNone)]) =
     [''model_init = model_init'', ''args = args'']
   \<and> ''model'' \<notin> set (map fst [(''self'', EMPTY), (''model_init'', PyNone), (''args'', PyNone)])
   \<and> RLTrainer_extra_args
       (RLTrainer_call_args [(''self'', EMPTY), (''model_init'', PyNone), (''args'', PyNone)]
          [(''self'', EMPTY), (''output_dir'', PyNone)])
       ''grpo_trainer'' =
     indent8 (mixed_precision @ check_ga @ eval_changes @ length_check @ training_check @
       ''from unsloth_zoo.logging_utils import PatchRLStatistics\<newline>'' @
       statistics_call ''grpo_trainer'')"
proof -
  have "snd (signature_lists [(''self'', EMPTY), (''model_init'', PyNone), (''args'', PyNone)]) =
      [''model_init = model_init'', ''args = args'']"
    by (simp add: signature_lists_def signature_step_def)
  moreover have "RLTrainer_extra_args
       ''\<newline>            model_init = model_init,\<newline>            args = args'' ''grpo_trainer'' =
     indent8 (mixed_precision @ check_ga @ eval_changes @ length_check @ training_check @
       ''from unsloth_zoo.logging_utils import PatchRLStatistics\<newline>'' @
       statistics_call ''grpo_trainer'')"
    unfolding RLTrainer_extra_args_def trainer_extra_args_def
    using model_init_tests by simp
  ultimately show ?thesis
    by (simp add: model_init_call_args)
qed

text \<open>
  Claim C4, evaluated where it fails. The signature below has the parameters \<open>seed\<close> and
  \<open>data_seed\<close> of \<^verbatim>\<open>transformers.TrainingArguments\<close>, the base of every TRL config class.
  The pattern built from the key \<open>seed\<close> is not anchored at the start of a name, so it also
  matches the end of the line of \<open>data_seed\<close>, a parameter that is not in the table: its
  default \<open>None\<close> becomes \<open>3407\<close>.
\<close>

theorem edit_defaults_rewrites_data_seed:
  "fst (process_signature
     [(''self'', EMPTY), (''output_dir'', PyStr ''tmp_trainer''), (''seed'', PyInt 42),
      (''data_seed'', PyNone), (''bf16'', PyBool False)]) =
     ''\<newline>        self,\<newline>        output_dir = '' @ SQ @ ''tmp_trainer'' @ SQ @
     '',\<newline>        seed = 42,\<newline>        data_seed = None,\<newline>        bf16 = False''
   \<and> RLConfig_arguments
     [(''self'', EMPTY), (''output_dir'', PyStr ''tmp_trainer''), (''seed'', PyInt 42),
      (''data_seed'', PyNone), (''bf16'', PyBool False)] =
     ''\<newline>        self,\<newline>        output_dir = None,\<newline>        seed = 3407,\<newline>        data_seed = 3407,\<newline>        bf16 = False''"
  by code_simp

section \<open>Properties of the replaced texts\<close>






















section \<open>Properties of the store\<close>

lemma getattr_setattr:
  "a < length h \<Longrightarrow> v < length h \<Longrightarrow>
   getattr (setattr h a n v) b n' = (if b = a \<and> n' = n then Inr v else getattr h b n')"
  by (auto simp: getattr_def setattr_def update_conv' nth_list_update
      split: option.splits attr_slot.splits)

lemma length_setattr [simp]: "length (setattr h a n v) = length h"
  by (simp add: setattr_def)

lemma obj_name_setattr [simp]: "obj_name (setattr h a n v ! b) = obj_name (h ! b)"
  by (cases "a < length h") (auto simp: setattr_def nth_list_update list_update_beyond)

lemma getattr_bounds: "getattr h a n = Inr b \<Longrightarrow> a < length h \<and> b < length h"
  by (auto simp: getattr_def split: if_splits option.splits attr_slot.splits)

lemma getattr_append: "getattr h a n = Inr b \<Longrightarrow> getattr (h @ xs) a n = Inr b"
  by (auto simp: getattr_def nth_append split: if_splits option.splits attr_slot.splits)

lemma getattr_in_dir: "getattr h a n = Inr b \<Longrightarrow> n \<in> set (dir h a)"
  by (auto simp: getattr_def dir_def map_of_eq_None_iff
      split: if_splits option.splits attr_slot.splits
      dest: map_of_SomeD intro: rev_image_eqI)

lemma created_attr_sound:
  "created_attr base xs n = Inr v \<Longrightarrow>
     base \<le> v \<and> v < base + length xs \<and> obj_name (xs ! (v - base)) = n"
proof (induction xs arbitrary: base)
  case Nil
  then show ?case by simp
next
  case (Cons x xs)
  show ?case
  proof (cases "obj_name x = n")
    case True
    with Cons.prems show ?thesis by simp
  next
    case False
    with Cons.prems have "created_attr (Suc base) xs n = Inr v" by simp
    from Cons.IH [OF this] show ?thesis
      by (auto simp: nth_Cons')
  qed
qed

text \<open>The six assignments in closed form, for a module that has both classes.\<close>

lemma install_closed:
  assumes tr: "getattr h t ''trainer'' = Inr tr"
    and m: "getattr h tr tf = Inr m"
    and u: "created_attr (length h) created (''Unsloth'' @ T) = Inr u"
    and uc: "created_attr (length h) created (''Unsloth'' @ K) = Inr uc"
    and ne: "T \<noteq> ''trainer''" "K \<noteq> ''trainer''" "T \<noteq> K"
  shows "install t tf T K h created =
     (None,
      setattr (setattr (setattr (setattr (setattr (setattr (h @ created) t T u) tr T u)
         (if tf = T then u else m) T u) t K uc) tr K uc)
         (if tf = T then u else if tf = K then uc else m) K uc)"
proof -
  have b: "t < length h" "tr < length h" "m < length h"
    using getattr_bounds [OF tr] getattr_bounds [OF m] by auto
  have ub: "u < length h + length created" "uc < length h + length created"
    using created_attr_sound [OF u] created_attr_sound [OF uc] by auto
  have tr0: "getattr (h @ created) t ''trainer'' = Inr tr"
    and m0: "getattr (h @ created) tr tf = Inr m"
    using tr m by (auto intro: getattr_append)
  show ?thesis
    using b ub ne tr0 m0 u uc
    by (simp add: install_def exec_assign_def assign_def getattr_setattr)
qed

lemma installed_heap:
  assumes tr: "getattr h t ''trainer'' = Inr tr"
    and m: "getattr h tr tf = Inr m"
    and u: "created_attr (length h) created (''Unsloth'' @ T) = Inr u"
    and uc: "created_attr (length h) created (''Unsloth'' @ K) = Inr uc"
    and ne: "T \<noteq> ''trainer''" "K \<noteq> ''trainer''" "T \<noteq> K"
  shows "\<exists>h'. install t tf T K h created = (None, h') \<and>
      obj_name (h' ! u) = ''Unsloth'' @ T \<and> obj_name (h' ! uc) = ''Unsloth'' @ K \<and>
      getattr h' t ''trainer'' = Inr tr \<and>
      getattr h' t T = Inr u \<and> getattr h' t K = Inr uc \<and>
      getattr h' tr T = Inr u \<and> getattr h' tr K = Inr uc \<and>
      getattr h' tr tf = Inr (if tf = T then u else if tf = K then uc else m) \<and>
      getattr h' (if tf = T then u else if tf = K then uc else m) K = Inr uc \<and>
      (tf \<noteq> K \<longrightarrow> getattr h' (if tf = T then u else m) T = Inr u)"
proof -
  have b: "t < length h" "tr < length h" "m < length h"
    using getattr_bounds [OF tr] getattr_bounds [OF m] by auto
  have su: "length h \<le> u" "u < length h + length created"
      "obj_name (created ! (u - length h)) = ''Unsloth'' @ T"
    using created_attr_sound [OF u] by auto
  have suc: "length h \<le> uc" "uc < length h + length created"
      "obj_name (created ! (uc - length h)) = ''Unsloth'' @ K"
    using created_attr_sound [OF uc] by auto
  have tr0: "getattr (h @ created) t ''trainer'' = Inr tr"
    and m0: "getattr (h @ created) tr tf = Inr m"
    using tr m by (auto intro: getattr_append)
  have nu: "obj_name ((h @ created) ! u) = ''Unsloth'' @ T"
    using su by (simp add: nth_append)
  have nuc: "obj_name ((h @ created) ! uc) = ''Unsloth'' @ K"
    using suc by (simp add: nth_append)
  show ?thesis
    unfolding install_closed [OF tr m u uc ne]
    using b su(1,2) suc(1,2) ne tr0 m0 nu nuc
    by (auto simp: getattr_setattr)
qed

lemma exec_all_None_created:
  "exec_all t base created h stmts = (None, h') \<Longrightarrow> (path, n, cls) \<in> set stmts \<Longrightarrow>
     \<exists>v. created_attr base created cls = Inr v"
proof (induction stmts arbitrary: h)
  case Nil
  then show ?case by simp
next
  case (Cons stmt stmts)
  obtain r h1 where e: "exec_assign t base created h stmt = (r, h1)"
    by (cases "exec_assign t base created h stmt")
  with Cons.prems(1) have r: "r = None" and rest: "exec_all t base created h1 stmts = (None, h')"
    by (auto split: option.splits)
  show ?case
  proof (cases "(path, n, cls) = stmt")
    case True
    with e r show ?thesis
      by (auto simp: exec_assign_def split: sum.splits)
  next
    case False
    with Cons.prems(2) have "(path, n, cls) \<in> set stmts" by auto
    from Cons.IH [OF rest this] show ?thesis .
  qed
qed

lemma install_None_created:
  assumes "install t tf T K h created = (None, h')"
  shows "\<exists>u uc. created_attr (length h) created (''Unsloth'' @ T) = Inr u \<and>
                created_attr (length h) created (''Unsloth'' @ K) = Inr uc"
proof -
  have a: "\<exists>v. created_attr (length h) created (''Unsloth'' @ T) = Inr v"
    using exec_all_None_created [OF assms [unfolded install_def], of "[]" T "''Unsloth'' @ T"]
    by simp
  have b: "\<exists>v. created_attr (length h) created (''Unsloth'' @ K) = Inr v"
    using exec_all_None_created [OF assms [unfolded install_def], of "[]" K "''Unsloth'' @ K"]
    by simp
  from a b show ?thesis by blast
qed

section \<open>Properties of the lookups\<close>

lemma suffix_last: "suffix xs s \<Longrightarrow> xs \<noteq> [] \<Longrightarrow> last s = last xs"
  by (auto simp: suffix_def)

lemma singleton_hd: "length xs = 1 \<Longrightarrow> x \<in> set xs \<Longrightarrow> hd xs = x"
  by (cases xs) auto

lemma class_names_member:
  "x \<in> set (class_names ending h a tf) \<longleftrightarrow>
     x \<in> set (dir h a) \<and> endswith x ending \<and> x \<noteq> ending \<and>
     py_in (hd (py_split_char CHR ''_'' tf)) (lower x)"
  by (simp add: class_names_def)

lemma trainer_name_facts:
  assumes "class_names ''Trainer'' h a tf = [T]" and "class_names ''Config'' h a tf = [K]"
  shows "T \<noteq> ''trainer''" "K \<noteq> ''trainer''" "T \<noteq> K"
proof -
  have T: "endswith T ''Trainer''" and K: "endswith K ''Config''"
    using assms class_names_member [of T "''Trainer''" h a tf]
      class_names_member [of K "''Config''" h a tf]
    by auto
  have lT: "last T = CHR ''r''"
    using suffix_last [of "''Trainer''" T] T by (simp add: endswith_def)
  have lK: "last K = CHR ''g''"
    using suffix_last [of "''Config''" K] K by (simp add: endswith_def)
  show "T \<noteq> ''trainer''" using T by (auto simp: endswith_def suffix_to_prefix)
  show "K \<noteq> ''trainer''" using lK by auto
  show "T \<noteq> K" using lT lK by auto
qed

lemma resolve_classes_Found:
  assumes "resolve_classes tf s = Found tr m T K c ck"
  shows "getattr (heap s) (trl s) ''trainer'' = Inr tr"
    and "getattr (heap s) tr tf = Inr m"
    and "class_names ''Trainer'' (heap s) m tf = [T]"
    and "class_names ''Config'' (heap s) m tf = [K]"
    and "getattr (heap s) m T = Inr c"
    and "getattr (heap s) m K = Inr ck"
  using assms
  by (auto simp: resolve_classes_def Let_def length_Suc_conv
      split: sum.splits if_splits)

lemma lookup_Found:
  assumes "lookup_classes tf s = Found tr m T K c ck"
  shows "resolve_classes tf s = Found tr m T K c ck"
    and "\<not> startswith (obj_name (heap s ! c)) ''Unsloth''"
    and "\<not> startswith (obj_name (heap s ! ck)) ''Unsloth''"
  using assms
  by (auto simp: lookup_classes_def split: lookup.splits if_splits)

lemma completed_run:
  assumes "underscore_patch_trl_rl_trainers ext tf s = (Completed, s')"
  shows "\<exists>tr m T K c ck created h'.
      lookup_classes tf s = Found tr m T K c ck \<and>
      synthesize ext (heap s) tf tr m T K c ck = Inr created \<and>
      install (trl s) tf T K (heap s) created = (None, h') \<and> s' = s\<lparr>heap := h'\<rparr>"
  using assms
  by (auto simp: underscore_patch_trl_rl_trainers_def
      split: lookup.splits sum.splits option.splits prod.splits)

lemma lookup_returns_when_config_patched:
  assumes tr: "getattr (heap s) (trl s) ''trainer'' = Inr tr"
    and m: "getattr (heap s) tr tf = Inr m"
    and k: "getattr (heap s) m K = Inr uc"
    and name: "startswith (obj_name (heap s ! uc)) ''Unsloth''"
    and K: "endswith K ''Config''" "K \<noteq> ''Config''"
      "py_in (hd (py_split_char CHR ''_'' tf)) (lower K)"
  shows "lookup_classes tf s = Lookup_returns"
proof -
  have mem: "K \<in> set (class_names ''Config'' (heap s) m tf)"
    using K getattr_in_dir [OF k] by (simp add: class_names_member)
  show ?thesis
  proof (cases "resolve_classes tf s")
    case (Lookup_raises e)
    then show ?thesis
      using tr m by (auto simp: resolve_classes_def Let_def split: sum.splits if_splits)
  next
    case Lookup_returns
    then show ?thesis by (simp add: lookup_classes_def)
  next
    case (Found tr' m' T' K' c' ck')
    note f = resolve_classes_Found [OF Found]
    have same: "tr' = tr" "m' = m"
      using f(1,2) tr m by auto
    have "K' = K"
      using f(4) mem by (simp add: same)
    then have "ck' = uc"
      using f(6) k by (simp add: same)
    then show ?thesis
      using name by (simp add: lookup_classes_def Found)
  qed
qed

lemma dir_append: "a < length h \<Longrightarrow> dir (h @ xs) a = dir h a"
  by (simp add: dir_def nth_append)

lemma dir_setattr:
  "a < length h \<Longrightarrow> n \<in> set (dir h a) \<Longrightarrow> dir (setattr h a n v) b = dir h b"
  by (cases "b = a") (auto simp: dir_def setattr_def update_keys)

section \<open>Properties of \<^verbatim>\<open>_patch_trl_rl_trainers\<close>\<close>

text \<open>A run that finds its classes, gets a module from the compiler and finds the two
  synthesized classes in it completes, and leaves the store of the six assignments.\<close>

lemma patch_completes:
  assumes lk: "lookup_classes tf s = Found tr m T K c ck"
    and syn: "synthesize ext (heap s) tf tr m T K c ck = Inr created"
    and u: "created_attr (length (heap s)) created (''Unsloth'' @ T) = Inr u"
    and uc: "created_attr (length (heap s)) created (''Unsloth'' @ K) = Inr uc"
  shows "underscore_patch_trl_rl_trainers ext tf s =
     (Completed, s\<lparr>heap :=
        setattr (setattr (setattr (setattr (setattr (setattr (heap s @ created) (trl s) T u) tr T u)
          (if tf = T then u else m) T u) (trl s) K uc) tr K uc)
          (if tf = T then u else if tf = K then uc else m) K uc\<rparr>)"
proof -
  note f = resolve_classes_Found [OF lookup_Found(1) [OF lk]]
  note ne = trainer_name_facts [OF f(3) f(4)]
  show ?thesis
    by (simp add: underscore_patch_trl_rl_trainers_def lk syn
        install_closed [OF f(1) f(2) u uc ne])
qed

text \<open>
  Claim C5. When the imports of lines 125-126 have succeeded and one of the reflective
  lookups fails or is ambiguous (the evaluation of \<^verbatim>\<open>trl.trainer.<trainer_file>\<close> raises; or it
  yields a module that does not have exactly one name for a trainer class, or not exactly
  one name for a config class; or the evaluation of \<^verbatim>\<open>trl.trainer.<trainer_file>.<name>\<close>
  raises for the trainer class or for the config class), \<open>_patch_trl_rl_trainers\<close> returns
  without raising, and the state it leaves is the state it was called in: no attribute of
  any object has changed.
\<close>

theorem lookup_failure_returns_unchanged:
  assumes "getattr (heap s) (trl s) ''trainer'' = Inr trl_trainer"
    and "(\<exists>e. resolve (heap s) (trl s) [''trainer'', trainer_file] = Inl e)
       \<or> (\<exists>trainer. resolve (heap s) (trl s) [''trainer'', trainer_file] = Inr trainer \<and>
            (length (class_names ''Trainer'' (heap s) trainer trainer_file) \<noteq> 1
             \<or> length (class_names ''Config'' (heap s) trainer trainer_file) \<noteq> 1
             \<or> (\<exists>e. resolve (heap s) (trl s)
                       [''trainer'', trainer_file,
                        hd (class_names ''Trainer'' (heap s) trainer trainer_file)] = Inl e)
             \<or> (\<exists>e. resolve (heap s) (trl s)
                       [''trainer'', trainer_file,
                        hd (class_names ''Config'' (heap s) trainer trainer_file)] = Inl e)))"
  shows "underscore_patch_trl_rl_trainers ext trainer_file s = (Early_return, s)"
proof -
  have "resolve_classes trainer_file s = Lookup_returns"
    using assms
    by (auto simp: resolve_classes_def Let_def split: sum.splits)
  then show ?thesis
    by (simp add: underscore_patch_trl_rl_trainers_def lookup_classes_def)
qed


text \<open>
  Claim C8, amended. The two classes that \<open>_patch_trl_rl_trainers\<close> installs in the
  namespaces have names that start with \<open>Unsloth\<close>; the function returns without any
  change of the state whenever the name of the resolved trainer class or of the resolved
  config class starts with \<open>Unsloth\<close>; and a second run, in the state that a completed
  first run has left, returns early and leaves that state as it is.
\<close>

theorem patch_twice_changes_nothing:
  "(underscore_patch_trl_rl_trainers ext trainer_file s = (Completed, s') \<longrightarrow>
      (\<exists>trl_trainer trainer RLTrainer_name RLConfig_name RLTrainer RLConfig u uc.
         resolve_classes trainer_file s =
           Found trl_trainer trainer RLTrainer_name RLConfig_name RLTrainer RLConfig \<and>
         resolve (heap s') (trl s') [''trainer'', RLTrainer_name] = Inr u \<and>
         resolve (heap s') (trl s') [''trainer'', RLConfig_name] = Inr uc \<and>
         startswith (obj_name (heap s' ! u)) ''Unsloth'' \<and>
         startswith (obj_name (heap s' ! uc)) ''Unsloth'') \<and>
      underscore_patch_trl_rl_trainers ext trainer_file s' = (Early_return, s'))
   \<and> (resolve_classes trainer_file s = Found tr m T K c ck \<and>
        (startswith (obj_name (heap s ! c)) ''Unsloth'' \<or>
         startswith (obj_name (heap s ! ck)) ''Unsloth'') \<longrightarrow>
      underscore_patch_trl_rl_trainers ext trainer_file s = (Early_return, s))"
proof (intro conjI impI)
  assume "resolve_classes trainer_file s = Found tr m T K c ck \<and>
        (startswith (obj_name (heap s ! c)) ''Unsloth'' \<or>
         startswith (obj_name (heap s ! ck)) ''Unsloth'')"
  then show "underscore_patch_trl_rl_trainers ext trainer_file s = (Early_return, s)"
    by (auto simp: underscore_patch_trl_rl_trainers_def lookup_classes_def)
next
  assume run: "underscore_patch_trl_rl_trainers ext trainer_file s = (Completed, s')"
  obtain tr m T K c ck created h' where
    lk: "lookup_classes trainer_file s = Found tr m T K c ck"
    and inst: "install (trl s) trainer_file T K (heap s) created = (None, h')"
    and s': "s' = s\<lparr>heap := h'\<rparr>"
    using completed_run [OF run] by blast
  note rc = lookup_Found(1) [OF lk]
  note f = resolve_classes_Found [OF rc]
  note ne = trainer_name_facts [OF f(3) f(4)]
  obtain u uc where u: "created_attr (length (heap s)) created (''Unsloth'' @ T) = Inr u"
    and uc: "created_attr (length (heap s)) created (''Unsloth'' @ K) = Inr uc"
    using install_None_created [OF inst] by blast
  from installed_heap [OF f(1) f(2) u uc ne] inst
  have H: "obj_name (h' ! u) = ''Unsloth'' @ T" "obj_name (h' ! uc) = ''Unsloth'' @ K"
      "getattr h' (trl s) ''trainer'' = Inr tr"
      "getattr h' tr T = Inr u" "getattr h' tr K = Inr uc"
      "getattr h' tr trainer_file =
         Inr (if trainer_file = T then u else if trainer_file = K then uc else m)"
      "getattr h' (if trainer_file = T then u else if trainer_file = K then uc else m) K = Inr uc"
    by auto
  have Kp: "endswith K ''Config''" "K \<noteq> ''Config''"
      "py_in (hd (py_split_char CHR ''_'' trainer_file)) (lower K)"
    using f(4) class_names_member [of K "''Config''" "heap s" m trainer_file] by auto
  have again: "lookup_classes trainer_file s' = Lookup_returns"
    by (rule lookup_returns_when_config_patched [where K = K and uc = uc and tr = tr
          and m = "if trainer_file = T then u else if trainer_file = K then uc else m"])
       (use H Kp in \<open>auto simp: s' startswith_def\<close>)
  show "underscore_patch_trl_rl_trainers ext trainer_file s' = (Early_return, s')"
    by (simp add: underscore_patch_trl_rl_trainers_def again)
  show "\<exists>trl_trainer trainer RLTrainer_name RLConfig_name RLTrainer RLConfig u uc.
         resolve_classes trainer_file s =
           Found trl_trainer trainer RLTrainer_name RLConfig_name RLTrainer RLConfig \<and>
         resolve (heap s') (trl s') [''trainer'', RLTrainer_name] = Inr u \<and>
         resolve (heap s') (trl s') [''trainer'', RLConfig_name] = Inr uc \<and>
         startswith (obj_name (heap s' ! u)) ''Unsloth'' \<and>
         startswith (obj_name (heap s' ! uc)) ''Unsloth''"
    apply (rule exI [of _ tr], rule exI [of _ m], rule exI [of _ T], rule exI [of _ K],
        rule exI [of _ c], rule exI [of _ ck], rule exI [of _ u], rule exI [of _ uc])
    using rc H by (auto simp: s' startswith_def)
qed

section \<open>The functions on the small stores\<close>

lemma endswith_drop:
  "endswith s x \<longleftrightarrow> length x \<le> length s \<and> drop (length s - length x) s = x"
  by (auto simp: endswith_def suffix_def) (metis append_take_drop_id)

lemmas eval_strings = endswith_drop startswith_def py_in_def sublist_code lower_def
  lower_char_def ascii_uppercase_def ascii_lowercase_def

lemmas eval_objects = plain_object_def class_object_def function_object_def
  trainer_class_def trainer_init_def config_init_def

lemma small_trl_nth:
  "trl small_trl = 0" "length (heap small_trl) = 10"
  "obj_name (heap small_trl ! 3) = ''GRPOTrainer''"
  "obj_name (heap small_trl ! 4) = ''GRPOConfig''"
  by (simp_all add: small_trl_def trainer_class_def class_object_def)

lemma small_trl_objects:
  "heap small_trl ! 3 = trainer_class" "heap small_trl ! 5 = trainer_init"
  "heap small_trl ! 6 = config_init"
  by (simp_all add: small_trl_def)

lemma small_trl_getattr:
  "getattr (heap small_trl) 0 ''trainer'' = Inr (Suc 0)"
  "getattr (heap small_trl) (Suc 0) ''grpo_trainer'' = Inr 2"
  "getattr (heap small_trl) (Suc 0) ''sft_trainer'' = Inl ImportError"
  "getattr (heap small_trl) (Suc 0) ''GRPOTrainer'' = Inr 3"
  "getattr (heap small_trl) (Suc 0) ''GRPOConfig'' = Inr 4"
  "getattr (heap small_trl) 2 ''GRPOTrainer'' = Inr 3"
  "getattr (heap small_trl) 2 ''GRPOConfig'' = Inr 4"
  "getattr (heap small_trl) 3 ''__init__'' = Inr 5"
  "getattr (heap small_trl) 4 ''__init__'' = Inr 6"
  by (simp_all add: small_trl_def getattr_def plain_object_def class_object_def trainer_class_def)

lemma small_trl_dir:
  "dir (heap small_trl) 2 = [''GRPOTrainer'', ''GRPOConfig'']"
  "dir (heap small_trl) 3 = [''__init__'']"
  by (simp_all add: small_trl_def dir_def plain_object_def class_object_def trainer_class_def)

lemma small_trl_names:
  "class_names ''Trainer'' (heap small_trl) 2 ''grpo_trainer'' = [''GRPOTrainer'']"
  "class_names ''Config'' (heap small_trl) 2 ''grpo_trainer'' = [''GRPOConfig'']"
  unfolding class_names_def small_trl_dir
  by (simp_all add: eval_strings)

lemma small_trl_lookup:
  "resolve_classes ''grpo_trainer'' small_trl = Found (Suc 0) 2 ''GRPOTrainer'' ''GRPOConfig'' 3 4"
  "lookup_classes ''grpo_trainer'' small_trl = Found (Suc 0) 2 ''GRPOTrainer'' ''GRPOConfig'' 3 4"
proof -
  show r: "resolve_classes ''grpo_trainer'' small_trl =
      Found (Suc 0) 2 ''GRPOTrainer'' ''GRPOConfig'' 3 4"
    by (simp add: resolve_classes_def Let_def small_trl_nth small_trl_getattr small_trl_names)
  show "lookup_classes ''grpo_trainer'' small_trl =
      Found (Suc 0) 2 ''GRPOTrainer'' ''GRPOConfig'' 3 4"
    by (simp add: lookup_classes_def r small_trl_nth startswith_def)
qed

lemma small_externals_compiler:
  "create_new_function (small_externals config_class_name) name source location imports =
     Inr [plain_object config_class_name [], plain_object (''_'' @ name) [],
          plain_object name []]"
  by (simp add: small_externals_def)

lemma small_trl_patch_vllm:
  "patch_vllm (small_externals ''UnslothGRPOConfig'') (heap small_trl) 3 ''grpo_trainer''
     ''GRPOTrainer'' [''GRPOTrainer'', ''GRPOConfig''] [''GRPOTrainer'', ''GRPOConfig''] =
   Inr (''class _UnslothGRPOTrainer(Trainer):\<newline>'' @
        ''    def __init__(self, model, peft_config = None):\<newline>'' @
        ''        if False: pass\<newline>'',
        [''GRPOTrainer'', ''GRPOConfig''])"
  by code_simp

lemma small_trl_synthesize:
  "synthesize (small_externals ''UnslothGRPOConfig'') (heap small_trl) ''grpo_trainer'' (Suc 0) 2
     ''GRPOTrainer'' ''GRPOConfig'' 3 4 =
   Inr [plain_object ''UnslothGRPOConfig'' [], plain_object ''_UnslothGRPOTrainer'' [],
        plain_object ''UnslothGRPOTrainer'' []]"
  by (simp add: synthesize_def Let_def init_signature_def small_trl_getattr small_trl_objects
      small_trl_dir small_trl_patch_vllm small_externals_compiler startswith_def
      trainer_init_def config_init_def function_object_def)

lemma small_trl_created:
  "created_attr (length (heap small_trl))
     [plain_object ''UnslothGRPOConfig'' [], plain_object ''_UnslothGRPOTrainer'' [],
      plain_object ''UnslothGRPOTrainer'' []] (''Unsloth'' @ ''GRPOTrainer'') = Inr 12"
  "created_attr (length (heap small_trl))
     [plain_object ''UnslothGRPOConfig'' [], plain_object ''_UnslothGRPOTrainer'' [],
      plain_object ''UnslothGRPOTrainer'' []] (''Unsloth'' @ ''GRPOConfig'') = Inr 10"
  by (simp_all add: small_trl_nth plain_object_def)

lemma small_trl_completes:
  "fst (underscore_patch_trl_rl_trainers (small_externals ''UnslothGRPOConfig'') ''grpo_trainer''
          small_trl) = Completed"
  by (simp add: patch_completes [OF small_trl_lookup(2) small_trl_synthesize small_trl_created])

lemma config_module_trl_nth:
  "trl config_module_trl = 0" "length (heap config_module_trl) = 7"
  "obj_name (heap config_module_trl ! 3) = ''GRPOTrainer''"
  "obj_name (heap config_module_trl ! 4) = ''grpo_Config''"
  by (simp_all add: config_module_trl_def trainer_class_def class_object_def)


lemma config_module_trl_getattr:
  "getattr (heap config_module_trl) 0 ''trainer'' = Inr (Suc 0)"
  "getattr (heap config_module_trl) 0 ''models'' = Inl AttributeError"
  "getattr (heap config_module_trl) (Suc 0) ''grpo_Config'' = Inr 2"
  "getattr (heap config_module_trl) (Suc 0) ''GRPOTrainer'' = Inr 3"
  "getattr (heap config_module_trl) 2 ''GRPOTrainer'' = Inr 3"
  "getattr (heap config_module_trl) 2 ''grpo_Config'' = Inr 4"
  "getattr (heap config_module_trl) 3 ''__init__'' = Inr 5"
  "getattr (heap config_module_trl) 4 ''__init__'' = Inr 6"
  by (simp_all add: config_module_trl_def getattr_def plain_object_def class_object_def
      trainer_class_def)










text \<open>An instance of claim C5: the module \<^verbatim>\<open>sft_trainer\<close> of \<open>small_trl\<close> cannot be imported.\<close>

theorem lookup_failure_returns_unchanged_witness:
  "getattr (heap small_trl) (trl small_trl) ''trainer'' = Inr 1
   \<and> resolve (heap small_trl) (trl small_trl) [''trainer'', ''sft_trainer''] = Inl ImportError
   \<and> underscore_patch_trl_rl_trainers (small_externals ''UnslothGRPOConfig'') ''sft_trainer''
       small_trl = (Early_return, small_trl)"
  using lookup_failure_returns_unchanged
    [of small_trl 1 "''sft_trainer''" "small_externals ''UnslothGRPOConfig''"]
  by (simp add: small_trl_nth small_trl_getattr)

lemma small_trl_dir_packages:
  "dir (heap small_trl) 0 = [''trainer'', ''models'', ''GRPOTrainer'', ''GRPOConfig'']"
  "dir (heap small_trl) (Suc 0) = [''grpo_trainer'', ''sft_trainer'', ''GRPOTrainer'', ''GRPOConfig'']"
  by (simp_all add: small_trl_def dir_def plain_object_def)

lemma small_trl_patched:
  "resolve_classes ''grpo_trainer''
     (snd (underscore_patch_trl_rl_trainers (small_externals ''UnslothGRPOConfig'')
             ''grpo_trainer'' small_trl)) =
     Found (Suc 0) 2 ''GRPOTrainer'' ''GRPOConfig'' 12 10"
  "obj_name (heap (snd (underscore_patch_trl_rl_trainers (small_externals ''UnslothGRPOConfig'')
             ''grpo_trainer'' small_trl)) ! 12) = ''UnslothGRPOTrainer''"
proof -
  let ?created = "[plain_object ''UnslothGRPOConfig'' [], plain_object ''_UnslothGRPOTrainer'' [],
      plain_object ''UnslothGRPOTrainer'' []]"
  have g: "getattr (heap small_trl @ ?created) 0 ''trainer'' = Inr (Suc 0)"
      "getattr (heap small_trl @ ?created) (Suc 0) ''grpo_trainer'' = Inr 2"
    by (simp_all add: getattr_append small_trl_getattr)
  have d: "dir (heap small_trl @ ?created) 0 = dir (heap small_trl) 0"
      "dir (heap small_trl @ ?created) (Suc 0) = dir (heap small_trl) (Suc 0)"
      "dir (heap small_trl @ ?created) 2 = dir (heap small_trl) 2"
    by (simp_all add: dir_append small_trl_nth)
  show "resolve_classes ''grpo_trainer''
     (snd (underscore_patch_trl_rl_trainers (small_externals ''UnslothGRPOConfig'')
             ''grpo_trainer'' small_trl)) =
     Found (Suc 0) 2 ''GRPOTrainer'' ''GRPOConfig'' 12 10"
    using g
    by (simp add: patch_completes [OF small_trl_lookup(2) small_trl_synthesize small_trl_created]
        resolve_classes_def Let_def class_names_def dir_setattr d small_trl_dir
        small_trl_dir_packages getattr_setattr small_trl_nth eval_strings)
  show "obj_name (heap (snd (underscore_patch_trl_rl_trainers
             (small_externals ''UnslothGRPOConfig'') ''grpo_trainer'' small_trl)) ! 12) =
      ''UnslothGRPOTrainer''"
    by (simp add: patch_completes [OF small_trl_lookup(2) small_trl_synthesize small_trl_created]
        nth_append small_trl_nth plain_object_def)
qed

text \<open>
  Claim C8, as the specification states it, fails: the synthesized module has a third
  class, whose name starts with an underscore. It is the original trainer class, whose
  source \<open>patch_vllm\<close> rewrites and renames to \<open>_Unsloth<RLTrainer_name>\<close>; the template puts
  that text in the module (line 108) and makes the class the base of
  \<open>Unsloth<RLTrainer_name>\<close> (line 111). For the trainer of \<open>small_trl\<close> the text is:
\<close>

theorem synthesized_source_defines_underscore_class:
  "patch_vllm (small_externals ''UnslothGRPOConfig'') (heap small_trl) 3 ''grpo_trainer''
     ''GRPOTrainer'' [''GRPOTrainer'', ''GRPOConfig''] [''GRPOTrainer'', ''GRPOConfig''] =
   Inr (''class _UnslothGRPOTrainer(Trainer):\<newline>'' @
        ''    def __init__(self, model, peft_config = None):\<newline>'' @
        ''        if False: pass\<newline>'',
        [''GRPOTrainer'', ''GRPOConfig''])
   \<and> \<not> startswith ''_UnslothGRPOTrainer'' ''Unsloth''"
  using small_trl_patch_vllm by (simp add: startswith_def)

text \<open>An instance of the amended claim C8: two runs on \<open>small_trl\<close>.\<close>

theorem patch_twice_changes_nothing_witness:
  "fst (underscore_patch_trl_rl_trainers (small_externals ''UnslothGRPOConfig'') ''grpo_trainer''
          small_trl) = Completed
   \<and> resolve_classes ''grpo_trainer''
       (snd (underscore_patch_trl_rl_trainers (small_externals ''UnslothGRPOConfig'')
               ''grpo_trainer'' small_trl)) =
       Found 1 2 ''GRPOTrainer'' ''GRPOConfig'' 12 10
   \<and> startswith
       (obj_name (heap (snd (underscore_patch_trl_rl_trainers
          (small_externals ''UnslothGRPOConfig'') ''grpo_trainer'' small_trl)) ! 12)) ''Unsloth''
   \<and> underscore_patch_trl_rl_trainers (small_externals ''UnslothGRPOConfig'') ''grpo_trainer''
       (snd (underscore_patch_trl_rl_trainers (small_externals ''UnslothGRPOConfig'')
               ''grpo_trainer'' small_trl)) =
       (Early_return,
        snd (underscore_patch_trl_rl_trainers (small_externals ''UnslothGRPOConfig'')
               ''grpo_trainer'' small_trl))"
proof -
  let ?r = "underscore_patch_trl_rl_trainers (small_externals ''UnslothGRPOConfig'')
      ''grpo_trainer'' small_trl"
  have run: "?r = (Completed, snd ?r)"
    using small_trl_completes by (cases ?r) simp
  have name: "startswith (obj_name (heap (snd ?r) ! 12)) ''Unsloth''"
    by (simp add: small_trl_patched(2) startswith_def)
  from patch_twice_changes_nothing
    [of "small_externals ''UnslothGRPOConfig''" "''grpo_trainer''" "snd ?r" "snd ?r"
        "Suc 0" 2 "''GRPOTrainer''" "''GRPOConfig''" 12 10]
    small_trl_patched(1) name small_trl_completes
  show ?thesis
    by simp
qed

section \<open>Properties of the statistics call and of \<^verbatim>\<open>PatchFastRL\<close>\<close>

lemma statistics_call_indented:
  assumes "CHR ''\<newline>'' \<notin> set trainer_file"
  shows "indent_tail (statistics_call trainer_file) =
     ''PatchRLStatistics('' @ SQ @ trainer_file @ SQ @ '')'' @ ''\<newline>'' @ spaces 8"
  using assms
  by (simp add: statistics_call_def indent_tail_append indent_tail_no_newline)

lemma preamble_ends_with_statistics:
  assumes "CHR ''\<newline>'' \<notin> set trainer_file"
  shows "suffix
     (''\<newline>'' @ spaces 8 @ ''PatchRLStatistics('' @ SQ @ trainer_file @ SQ @ '')'' @ ''\<newline>'' @
      spaces 8)
     (RLTrainer_extra_args call_args trainer_file)"
proof -
  have line: "indent_tail ''from unsloth_zoo.logging_utils import PatchRLStatistics\<newline>'' =
      ''from unsloth_zoo.logging_utils import PatchRLStatistics'' @ ''\<newline>'' @ spaces 8"
    by simp
  obtain blocks where b: "trainer_extra_args call_args trainer_file =
      blocks @ ''from unsloth_zoo.logging_utils import PatchRLStatistics\<newline>'' @
      statistics_call trainer_file"
    unfolding trainer_extra_args_def by (metis append.assoc)
  have "RLTrainer_extra_args call_args trainer_file =
      (spaces 8 @ indent_tail blocks @
       ''from unsloth_zoo.logging_utils import PatchRLStatistics'') @
      (''\<newline>'' @ spaces 8 @ ''PatchRLStatistics('' @ SQ @ trainer_file @ SQ @ '')'' @
       ''\<newline>'' @ spaces 8)"
    unfolding RLTrainer_extra_args_def b indent8_chars indent_tail_append line
      statistics_call_indented [OF assms]
    by simp
  then show ?thesis
    unfolding suffix_def by blast
qed

text \<open>
  Claim C7, as the specification states it, fails: \<open>PatchFastRL\<close> has no handler, so an
  exception of \<open>PatchRL\<close> (or of \<open>patch_trl_rl_trainers\<close>) leaves the function before the
  statistics are reached. In the store \<open>config_module_trl\<close> the package has no
  \<^verbatim>\<open>trl.models\<close>: the import of line 30 raises, and \<open>PatchFastRL\<close>, called with an algorithm
  that is not None, ends with that exception in the unchanged store, whereas the
  statistics of \<open>small_externals\<close>, had they been called, would have added an object to it.
\<close>

theorem statistics_not_reached_after_exception:
  "PatchFastRL (small_externals ''Unslothgrpo_Config'') (Some ''grpo'') (Some ())
     config_module_trl = (Some ImportError, config_module_trl)
   \<and> length (snd (PatchRLStatistics (small_externals ''Unslothgrpo_Config'') ''grpo''
                    (heap config_module_trl))) = 8
   \<and> length (heap config_module_trl) = 7"
  by (simp add: PatchFastRL_def PatchRL_def config_module_trl_getattr config_module_trl_nth
      small_externals_def)

text \<open>
  Claim C7, amended. For every \<open>trainer_file\<close> (a name: it has no line feed) and whatever
  the two constructor signatures are, the preamble of the synthesized trainer's
  \<open>__init__\<close> ends with the line \<open>PatchRLStatistics('<trainer_file>')\<close>, indented by 8 spaces
  and followed by a line feed and 8 spaces. \<open>PatchFastRL\<close> calls \<open>PatchRL\<close> first if and only
  if its argument \<open>FastLanguageModel\<close> is not None, and goes on if that call returns; it
  then calls \<open>patch_trl_rl_trainers\<close>; and it calls \<open>PatchRLStatistics(algorithm)\<close>, in the
  state that \<open>patch_trl_rl_trainers\<close> has left, if and only if \<open>algorithm\<close> is not None and
  the calls before have returned without raising.
\<close>

theorem statistics_call_and_fast_patch:
  "(CHR ''\<newline>'' \<notin> set trainer_file \<longrightarrow>
      suffix
        (''\<newline>'' @ spaces 8 @ ''PatchRLStatistics('' @ SQ @ trainer_file @ SQ @ '')'' @ ''\<newline>'' @
         spaces 8)
        (RLTrainer_extra_args (RLTrainer_call_args trainer_parameters parameters) trainer_file))
   \<and> PatchFastRL ext algorithm (Some flm) s =
       (case PatchRL s of
          (Some e, s1) \<Rightarrow> (Some e, s1)
        | (None, s1) \<Rightarrow> PatchFastRL ext algorithm (None :: 'f option) s1)
   \<and> PatchFastRL ext None (None :: 'f option) s = patch_trl_rl_trainers ext s
   \<and> PatchFastRL ext (Some a) (None :: 'f option) s =
       (case patch_trl_rl_trainers ext s of
          (Some e, s2) \<Rightarrow> (Some e, s2)
        | (None, s2) \<Rightarrow>
            (case PatchRLStatistics ext a (heap s2) of (r3, h3) \<Rightarrow> (r3, s2\<lparr>heap := h3\<rparr>)))"
  using preamble_ends_with_statistics
  by (auto simp: PatchFastRL_def split: prod.splits option.splits)

text \<open>An instance: the preamble for \<open>grpo_trainer\<close> and the constructors of \<open>small_trl\<close>.\<close>

theorem statistics_call_and_fast_patch_witness:
  "CHR ''\<newline>'' \<notin> set ''grpo_trainer''
   \<and> suffix
       (''\<newline>'' @ spaces 8 @ ''PatchRLStatistics('' @ SQ @ ''grpo_trainer'' @ SQ @ '')'' @ ''\<newline>'' @
        spaces 8)
       (RLTrainer_extra_args
          (RLTrainer_call_args
             [(''self'', EMPTY), (''model'', EMPTY), (''peft_config'', PyNone)]
             [(''self'', EMPTY), (''seed'', PyInt 42), (''bf16'', PyBool False)])
          ''grpo_trainer'')"
  using statistics_call_and_fast_patch
    [of "''grpo_trainer''" "[(''self'', EMPTY), (''model'', EMPTY), (''peft_config'', PyNone)]"
        "[(''self'', EMPTY), (''seed'', PyInt 42), (''bf16'', PyBool False)]", THEN conjunct1]
  by simp


end
